theory Spec2Isabelle
  imports Main "HOL-Library.Char_ord" "HOL-Library.List_Lexorder" "HOL-Library.Sublist"
    "HOL-Library.AList"
begin

section \<open>Errors and JavaScript values\<close>

text \<open>
  Every \<^verbatim>\<open>throw new Error('...')\<close> of the sources is the value \<open>Error msg\<close> with the
  source's message; a property read or method call on \<^verbatim>\<open>null\<close>, \<^verbatim>\<open>undefined\<close> or on a
  value without that method is \<open>TypeError\<close>; \<open>RangeError\<close> is what the runtime throws for
  a date out of range. Failures of the external libraries (ethers) are \<open>ExternalError\<close>.
\<close>

datatype error = Error string | TypeError | RangeError string | ExternalError string

text \<open>
  The values a JSON request body can carry. Numbers are modelled by their integer
  values; \<open>JNaN\<close> stands for the one number that is falsy besides zero.
\<close>

datatype jsv =
    JUndefined
  | JNull
  | JBool bool
  | JNum int
  | JNaN
  | JStr string
  | JArr "jsv list"
  | JObj "(string \<times> jsv) list"

text \<open>JavaScript truthiness: what \<^verbatim>\<open>!v\<close> and \<^verbatim>\<open>v && ...\<close> test.\<close>

fun truthy :: "jsv \<Rightarrow> bool" where
  "truthy JUndefined = False"
| "truthy JNull = False"
| "truthy (JBool b) = b"
| "truthy (JNum n) = (n \<noteq> 0)"
| "truthy JNaN = False"
| "truthy (JStr s) = (s \<noteq> [])"
| "truthy (JArr xs) = True"
| "truthy (JObj kvs) = True"

text \<open>\<^verbatim>\<open>v.length\<close> for a truthy value (a falsy one never reaches the read in the sources).\<close>

fun js_length :: "jsv \<Rightarrow> jsv" where
  "js_length (JStr s) = JNum (int (length s))"
| "js_length (JArr xs) = JNum (int (length xs))"
| "js_length (JObj kvs) = (case map_of kvs ''length'' of None \<Rightarrow> JUndefined | Some v \<Rightarrow> v)"
| "js_length v = JUndefined"

section \<open>MerkleTree (src/utils/merkle.js)\<close>

text \<open>
  The digests come from Node's crypto module, which is not part of the repository:
  \<open>hL\<close> is SHA-256 over the UTF-8 bytes of a string with a hex digest
  (\<^verbatim>\<open>hashLeaf\<close>), \<open>hN\<close> is SHA-256 over the bytes a hex string decodes to
  (\<^verbatim>\<open>hash.update(combined, 'hex')\<close>). Both are parameters of the model.
  Strings compare as JavaScript compares them: lexicographically by code unit.
\<close>

definition hashLeaf :: "(string \<Rightarrow> string) \<Rightarrow> string \<Rightarrow> string" where
  "hashLeaf hL data = hL data"

definition hashNodes :: "(string \<Rightarrow> string) \<Rightarrow> string \<Rightarrow> string \<Rightarrow> string" where
  "hashNodes hN left right = hN (if left < right then left @ right else right @ left)"

text \<open>
  The \<^verbatim>\<open>for (i = 0; i < currentLevel.length; i += 2)\<close> loop of \<^verbatim>\<open>buildTree\<close>: adjacent
  nodes are paired, a trailing node without a right neighbour is paired with itself.
\<close>

fun nextLevel :: "(string \<Rightarrow> string) \<Rightarrow> string list \<Rightarrow> string list" where
  "nextLevel hN [] = []"
| "nextLevel hN [left] = [hashNodes hN left left]"
| "nextLevel hN (left # right # rest) = hashNodes hN left right # nextLevel hN rest"

lemma length_nextLevel: "length (nextLevel hN xs) = (length xs + 1) div 2"
  by (induction hN xs rule: nextLevel.induct) simp_all

text \<open>The \<^verbatim>\<open>while (currentLevel.length > 1)\<close> loop; \<open>tree\<close> collects the levels.\<close>

function buildLoop :: "(string \<Rightarrow> string) \<Rightarrow> string list \<Rightarrow> string list list \<Rightarrow> string list list" where
  "buildLoop hN currentLevel tree =
     (if length currentLevel > 1
      then buildLoop hN (nextLevel hN currentLevel) (tree @ [nextLevel hN currentLevel])
      else tree)"
  by pat_completeness auto
termination
  by (relation "measure (\<lambda>(hN, currentLevel, tree). length currentLevel)")
    (auto simp: length_nextLevel)

declare buildLoop.simps [simp del]

text \<open>
  An element of \<^verbatim>\<open>this.tree\<close>. For a single leaf \<^verbatim>\<open>buildTree\<close> returns \<^verbatim>\<open>[leaf]\<close>, an
  array of one string; for two or more leaves it returns the array of levels, each
  an array of strings.
\<close>

datatype node = Str string | Arr "string list"

definition buildTree :: "(string \<Rightarrow> string) \<Rightarrow> string list \<Rightarrow> node list" where
  "buildTree hN lvs =
     (if length lvs = 0 then []
      else if length lvs = 1 then [Str (lvs ! 0)]
      else map Arr (buildLoop hN lvs [lvs]))"

record merkle_tree =
  leaves :: "string list"
  tree :: "node list"
  root :: "node option"

text \<open>The constructor; \<^verbatim>\<open>null\<close> is \<open>None\<close>.\<close>

definition MerkleTree :: "(string \<Rightarrow> string) \<Rightarrow> (string \<Rightarrow> string) \<Rightarrow> string list \<Rightarrow> merkle_tree" where
  "MerkleTree hL hN ls =
     (let lvs = map (hashLeaf hL) ls;
          t = buildTree hN lvs
      in \<lparr>leaves = lvs, tree = t,
          root = (if length t > 0 then Some (t ! (length t - 1)) else None)\<rparr>)"

definition getRoot :: "merkle_tree \<Rightarrow> node option" where
  "getRoot mt = root mt"

datatype position = Left | Right

record proof_node =
  hash :: string
  position :: position

text \<open>\<^verbatim>\<open>level.length\<close> and \<^verbatim>\<open>level[i]\<close> on an element of the tree (on a string, the
  code units and the one-character string at \<open>i\<close>).\<close>

fun node_length :: "node \<Rightarrow> nat" where
  "node_length (Str s) = length s"
| "node_length (Arr xs) = length xs"

fun node_at :: "node \<Rightarrow> nat \<Rightarrow> string" where
  "node_at (Str s) i = [s ! i]"
| "node_at (Arr xs) i = xs ! i"

text \<open>The \<^verbatim>\<open>while (currentLevel < this.tree.length - 1)\<close> loop of \<^verbatim>\<open>getProof\<close>.\<close>

function proofLoop :: "node list \<Rightarrow> nat \<Rightarrow> nat \<Rightarrow> proof_node list \<Rightarrow> proof_node list" where
  "proofLoop t currentIndex currentLevel prf =
     (if int currentLevel < int (length t) - 1
      then
        (let level = t ! currentLevel;
             isLeft = (currentIndex mod 2 = 0);
             siblingIndex = (if isLeft then currentIndex + 1 else currentIndex - 1);
             prf' = (if siblingIndex < node_length level
                     then prf @ [\<lparr>hash = node_at level siblingIndex,
                                  position = (if isLeft then Right else Left)\<rparr>]
                     else prf)
         in proofLoop t (currentIndex div 2) (currentLevel + 1) prf')
      else prf)"
  by pat_completeness auto
termination
  by (relation "measure (\<lambda>(t, currentIndex, currentLevel, prf). length t - currentLevel)") auto

declare proofLoop.simps [simp del]

definition getProof :: "merkle_tree \<Rightarrow> int \<Rightarrow> error + proof_node list" where
  "getProof mt index =
     (if index < 0 \<or> index \<ge> int (length (leaves mt))
      then Inl (Error ''Invalid leaf index'')
      else Inr (proofLoop (tree mt) (nat index) 0 []))"

text \<open>
  \<^verbatim>\<open>verifyProof\<close> folds the proof, compares with \<^verbatim>\<open>===\<close> (a string is never strictly
  equal to an array or to \<^verbatim>\<open>null\<close>) and then builds the log entry, which calls
  \<^verbatim>\<open>root.substring(0, 16)\<close>: on a root that is not a string that call throws, the
  \<^verbatim>\<open>catch\<close> block logs and rethrows.
\<close>

definition proofStep :: "(string \<Rightarrow> string) \<Rightarrow> proof_node \<Rightarrow> string \<Rightarrow> string" where
  "proofStep hN nd currentHash =
     (if position nd = Left then hashNodes hN (hash nd) currentHash
      else hashNodes hN currentHash (hash nd))"

definition verifyProof :: "(string \<Rightarrow> string) \<Rightarrow> string \<Rightarrow> proof_node list \<Rightarrow> node option \<Rightarrow> error + bool" where
  "verifyProof hN leaf prf rt =
     (let currentHash = fold (proofStep hN) prf leaf;
          isValid = (Some (Str currentHash) = rt)
      in case rt of
           Some (Str r) \<Rightarrow> Inr isValid
         | _ \<Rightarrow> Inl TypeError)"

section \<open>RollupManager (src/core/rollup.js)\<close>

text \<open>
  A submitted transaction: the six required properties, each any JSON value, a missing
  property being \<open>JUndefined\<close>. (\<open>from\<close> is a keyword of Isabelle, so the fields carry
  the prefix \<open>tx_\<close>.)
\<close>

record transaction =
  tx_from :: jsv
  tx_to :: jsv
  tx_value :: jsv
  tx_data :: jsv
  tx_nonce :: jsv
  tx_signature :: jsv

text \<open>An entry of \<^verbatim>\<open>pendingTransactions\<close>: \<^verbatim>\<open>{...transaction, id, timestamp, status}\<close>.\<close>

record pending_tx = transaction +
  p_id :: string
  p_timestamp :: int
  p_status :: string

record batch =
  b_id :: string
  b_transactions :: "pending_tx list"
  b_stateRoot :: "string option"
  b_merkleRoot :: "node option"
  b_timestamp :: int
  b_status :: string
  b_gasUsed :: int
  b_layer1TxHash :: "string option"

record contract =
  c_address :: string

text \<open>
  The manager's fields; \<^verbatim>\<open>batches\<close> is a JavaScript \<^verbatim>\<open>Map\<close>, kept as an association
  list in insertion order (\<open>AList.update\<close> is \<^verbatim>\<open>Map.set\<close>). The provider and the unused
  \<^verbatim>\<open>merkleTree\<close> field are left out.
\<close>

record rollup_manager =
  batches :: "(string \<times> batch) list"
  pendingTransactions :: "pending_tx list"
  stateRoot :: "string option"
  batchCounter :: nat
  contract :: "contract option"
  sequencerAddress :: string
  batchSize :: int
  batchTimeout :: int
  maxGasPerBatch :: int

text \<open>
  What the manager calls outside the repository (ethers, \<^verbatim>\<open>JSON.stringify\<close>, Node's
  crypto). The hash functions themselves are parameters; the form of what they return
  and the argument check of \<^verbatim>\<open>ethers.concat\<close> are written out below.
  \<^item> \<open>keccak_json_tx\<close>: \<^verbatim>\<open>ethers.keccak256(ethers.toUtf8Bytes(JSON.stringify(tx)))\<close>;
  \<^item> \<open>sha256_utf8\<close>: the bytes of the SHA-256 digest of the UTF-8 bytes of a string
    (\<^verbatim>\<open>hashLeaf\<close>), a byte being a \<open>char\<close>;
  \<^item> \<open>sha256_hex\<close>: the bytes of the SHA-256 digest of what a hex string decodes to
    (\<^verbatim>\<open>hash.update(combined, 'hex')\<close> in \<^verbatim>\<open>hashNodes\<close>);
  \<^item> \<open>keccak_concat a b c\<close>: \<^verbatim>\<open>ethers.keccak256\<close> of the bytes of the hex strings \<open>a\<close> and
    \<open>b\<close> followed by \<^verbatim>\<open>ethers.toUtf8Bytes(c)\<close>;
  \<^item> \<open>utf8_json_batch\<close>: \<^verbatim>\<open>ethers.toUtf8Bytes(JSON.stringify(batchData))\<close>;
  \<^item> \<open>encodeFunctionData\<close>: \<^verbatim>\<open>contract.interface.encodeFunctionData(name, [stateRoot, batchData])\<close>.
\<close>

record rollup_env =
  keccak_json_tx :: "pending_tx \<Rightarrow> string"
  sha256_utf8 :: "string \<Rightarrow> string"
  sha256_hex :: "string \<Rightarrow> string"
  keccak_concat :: "string \<Rightarrow> string \<Rightarrow> string \<Rightarrow> string"
  utf8_json_batch :: "string \<times> (jsv \<times> jsv \<times> jsv \<times> jsv \<times> jsv) list \<times> int \<Rightarrow> string"
  encodeFunctionData :: "string \<Rightarrow> string option \<Rightarrow> string \<Rightarrow> error + string"

text \<open>
  \<^verbatim>\<open>hash.digest('hex')\<close>: two lower-case hexadecimal digits for every byte of the digest,
  with no prefix.
\<close>

definition hexDigit :: "nat \<Rightarrow> char" where
  "hexDigit n = ''0123456789abcdef'' ! n"

definition hexByte :: "char \<Rightarrow> string" where
  "hexByte c = [hexDigit (of_char c div 16), hexDigit (of_char c mod 16)]"

definition digestHex :: "string \<Rightarrow> string" where
  "digestHex bytes = concat (map hexByte bytes)"

text \<open>The two digests of the MerkleTree as the manager's tree computes them.\<close>

definition leafHash :: "rollup_env \<Rightarrow> string \<Rightarrow> string" where
  "leafHash env d = digestHex (sha256_utf8 env d)"

definition nodeHash :: "rollup_env \<Rightarrow> string \<Rightarrow> string" where
  "nodeHash env d = digestHex (sha256_hex env d)"

text \<open>
  \<^verbatim>\<open>ethers.concat(datas)\<close> turns every element into bytes and throws
  \<^verbatim>\<open>'invalid BytesLike value'\<close> on an element that is neither a \<^verbatim>\<open>Uint8Array\<close> nor a
  string matching \<^verbatim>\<open>/^0x([0-9a-f][0-9a-f])*$/i\<close> (ethers v6, \<^verbatim>\<open>getBytes\<close>). Of the three
  elements the manager passes, the last is a \<^verbatim>\<open>Uint8Array\<close>; the first is \<^verbatim>\<open>null\<close> or a
  string, the second \<^verbatim>\<open>null\<close>, a string or an array of strings.
\<close>

definition isHexChar :: "char \<Rightarrow> bool" where
  "isHexChar c = (c \<in> set ''0123456789abcdefABCDEF'')"

fun isHexString :: "string \<Rightarrow> bool" where
  "isHexString (c0 # c1 # rest) =
     (c0 = CHR ''0'' \<and> (c1 = CHR ''x'' \<or> c1 = CHR ''X'') \<and> even (length rest)
      \<and> list_all isHexChar rest)"
| "isHexString [c0] = False"
| "isHexString [] = False"

fun isBytesLike :: "node option \<Rightarrow> bool" where
  "isBytesLike None = False"
| "isBytesLike (Some (Str s)) = isHexString s"
| "isBytesLike (Some (Arr a)) = False"

definition keccak256_concat ::
  "rollup_env \<Rightarrow> string option \<Rightarrow> node option \<Rightarrow> string \<Rightarrow> error + string" where
  "keccak256_concat env a b c =
     (case a of
        None \<Rightarrow> Inl (ExternalError ''invalid BytesLike value'')
      | Some x \<Rightarrow>
          if \<not> isBytesLike (Some (Str x)) then Inl (ExternalError ''invalid BytesLike value'')
          else (case b of
                  Some (Str y) \<Rightarrow>
                    if isBytesLike b then Inr (keccak_concat env x y c)
                    else Inl (ExternalError ''invalid BytesLike value'')
                | _ \<Rightarrow> Inl (ExternalError ''invalid BytesLike value'')))"

text \<open>The configuration the constructor reads (\<^verbatim>\<open>config.rollup\<close>).\<close>

record rollup_config =
  cfg_sequencerAddress :: string
  cfg_batchSize :: int
  cfg_batchTimeout :: int
  cfg_maxGasPerBatch :: int

definition RollupManager :: "rollup_config \<Rightarrow> rollup_manager" where
  "RollupManager cfg =
     \<lparr>batches = [], pendingTransactions = [], stateRoot = None, batchCounter = 0,
      contract = None, sequencerAddress = cfg_sequencerAddress cfg,
      batchSize = cfg_batchSize cfg, batchTimeout = cfg_batchTimeout cfg,
      maxGasPerBatch = cfg_maxGasPerBatch cfg\<rparr>"

definition ZeroHash :: string where
  "ZeroHash = ''0x'' @ replicate 64 (CHR ''0'')"

text \<open>
  \<^verbatim>\<open>initialize\<close>: \<^verbatim>\<open>setupProvider\<close> connects to the network and throws when that fails
  (\<open>providerUp\<close> says which); then \<^verbatim>\<open>setupContract\<close> and \<^verbatim>\<open>loadState\<close> run.
\<close>

definition initialize :: "bool \<Rightarrow> string \<Rightarrow> rollup_manager \<Rightarrow> (error + unit) \<times> rollup_manager" where
  "initialize providerUp contractAddress s =
     (if \<not> providerUp then (Inl (ExternalError ''getNetwork''), s)
      else (Inr (), s\<lparr>contract := Some \<lparr>c_address = contractAddress\<rparr>,
                        stateRoot := Some ZeroHash\<rparr>))"

text \<open>A non-negative number as JavaScript prints it in a string concatenation.\<close>

function digits :: "int \<Rightarrow> string" where
  "digits n = (if n < 10 then [char_of (48 + n)] else digits (n div 10) @ [char_of (48 + n mod 10)])"
  by pat_completeness auto
termination
  by (relation "measure nat") auto

declare digits.simps [simp del]

definition num_string :: "int \<Rightarrow> string" where
  "num_string n = (if n < 0 then ''-'' @ digits (- n) else digits n)"

text \<open>\<open>now\<close> is the reading of \<^verbatim>\<open>Date.now()\<close>, \<open>rnd\<close> the string that
  \<^verbatim>\<open>Math.random().toString(..).substr(..)\<close> yields at that call.\<close>

definition generateTransactionId :: "int \<Rightarrow> string \<Rightarrow> string" where
  "generateTransactionId now rnd = ''tx_'' @ num_string now @ ''_'' @ rnd"

definition generateBatchId :: "rollup_manager \<Rightarrow> int \<Rightarrow> string" where
  "generateBatchId s now = ''batch_'' @ num_string (int (batchCounter s)) @ ''_'' @ num_string now"

definition requiredFields :: "string list" where
  "requiredFields = [''from'', ''to'', ''value'', ''data'', ''nonce'', ''signature'']"

text \<open>\<^verbatim>\<open>transaction[field]\<close> for the required fields.\<close>

definition field :: "'a transaction_scheme \<Rightarrow> string \<Rightarrow> jsv" where
  "field tx f =
     (if f = ''from'' then tx_from tx
      else if f = ''to'' then tx_to tx
      else if f = ''value'' then tx_value tx
      else if f = ''data'' then tx_data tx
      else if f = ''nonce'' then tx_nonce tx
      else if f = ''signature'' then tx_signature tx
      else JUndefined)"

text \<open>\<^verbatim>\<open>transaction.signature && transaction.signature.length === 132\<close>, as a condition.\<close>

definition verifySignature :: "'a transaction_scheme \<Rightarrow> bool" where
  "verifySignature tx =
     (truthy (tx_signature tx) \<and> js_length (tx_signature tx) = JNum 132)"

definition validateTransaction :: "'a transaction_scheme \<Rightarrow> bool" where
  "validateTransaction tx =
     (if list_ex (\<lambda>f. \<not> truthy (field tx f)) requiredFields then False
      else if \<not> verifySignature tx then False
      else True)"

text \<open>\<^verbatim>\<open>xs.splice(0, n)\<close>: the removed elements and what is left; a negative count removes nothing.\<close>

definition splice0 :: "'a list \<Rightarrow> int \<Rightarrow> 'a list \<times> 'a list" where
  "splice0 xs n = (take (nat n) xs, drop (nat n) xs)"

text \<open>
  \<^verbatim>\<open>calculateBatchRoots\<close>: the merkleRoot is the root of the MerkleTree over the keccak
  hashes of the transactions; the stateRoot is the keccak hash of
  \<^verbatim>\<open>ethers.concat([this.stateRoot, batch.merkleRoot, ethers.toUtf8Bytes(batch.id)])\<close>.
  Whatever throws is logged and thrown again.
\<close>

definition calculateBatchRoots :: "rollup_env \<Rightarrow> rollup_manager \<Rightarrow> batch \<Rightarrow> error + batch" where
  "calculateBatchRoots env s b =
     (let transactionHashes = map (keccak_json_tx env) (b_transactions b);
          merkleTree = MerkleTree (leafHash env) (nodeHash env) transactionHashes;
          b1 = b\<lparr>b_merkleRoot := getRoot merkleTree\<rparr>
      in case keccak256_concat env (stateRoot s) (b_merkleRoot b1) (b_id b1) of
           Inl e \<Rightarrow> Inl e
         | Inr h \<Rightarrow> Inr (b1\<lparr>b_stateRoot := Some h\<rparr>))"

text \<open>The value \<^verbatim>\<open>calculateBatchRoots\<close> assigns to \<^verbatim>\<open>batch.merkleRoot\<close> for a list of
  transactions.\<close>

definition merkleRootOf :: "rollup_env \<Rightarrow> pending_tx list \<Rightarrow> node option" where
  "merkleRootOf env txs =
     getRoot (MerkleTree (leafHash env) (nodeHash env) (map (keccak_json_tx env) txs))"

definition encodeBatchData :: "rollup_env \<Rightarrow> batch \<Rightarrow> string" where
  "encodeBatchData env b =
     utf8_json_batch env
       (b_id b,
        map (\<lambda>tx. (tx_from tx, tx_to tx, tx_value tx, tx_data tx, tx_nonce tx)) (b_transactions b),
        b_timestamp b)"

text \<open>
  \<^verbatim>\<open>submitBatchToLayer1\<close>. The batch object is the one stored in \<^verbatim>\<open>batches\<close>, so its
  mutation is an update of the map at the batch's id. Whatever throws inside the
  \<^verbatim>\<open>try\<close> (reading \<^verbatim>\<open>this.contract.address\<close> of a manager that was never initialised,
  the encoder) reaches the \<^verbatim>\<open>catch\<close>, which sets the status \<^verbatim>\<open>'failed'\<close> and rethrows.
\<close>

definition submitFailed :: "error \<Rightarrow> batch \<Rightarrow> rollup_manager \<Rightarrow> (error + unit) \<times> rollup_manager" where
  "submitFailed e b s =
     (Inl e, s\<lparr>batches := AList.update (b_id b) (b\<lparr>b_status := ''failed''\<rparr>) (batches s)\<rparr>)"

definition submitBatchToLayer1 ::
  "rollup_env \<Rightarrow> string \<Rightarrow> batch \<Rightarrow> rollup_manager \<Rightarrow> (error + unit) \<times> rollup_manager" where
  "submitBatchToLayer1 env rnd b s =
     (let batchData = encodeBatchData env b
      in case contract s of
           None \<Rightarrow> submitFailed TypeError b s
         | Some c \<Rightarrow>
             (case encodeFunctionData env ''submitBatch'' (b_stateRoot b) batchData of
                Inl e \<Rightarrow> submitFailed e b s
              | Inr txdata \<Rightarrow>
                  (let b' = b\<lparr>b_status := ''submitted'', b_layer1TxHash := Some (''0x'' @ rnd)\<rparr>
                   in (Inr (), s\<lparr>batches := AList.update (b_id b) b' (batches s),
                                  stateRoot := b_stateRoot b'\<rparr>))))"

text \<open>\<^verbatim>\<open>createBatch\<close>; \<open>t_id\<close> and \<open>t_stamp\<close> are its two readings of the clock.\<close>

definition createBatch ::
  "rollup_env \<Rightarrow> int \<Rightarrow> int \<Rightarrow> string \<Rightarrow> rollup_manager \<Rightarrow> (error + unit) \<times> rollup_manager" where
  "createBatch env t_id t_stamp rnd s =
     (if length (pendingTransactions s) = 0 then (Inr (), s)
      else
        (let (batchTransactions, rest) = splice0 (pendingTransactions s) (batchSize s);
             s1 = s\<lparr>pendingTransactions := rest\<rparr>;
             batchId = generateBatchId s1 t_id;
             b = \<lparr>b_id = batchId, b_transactions = batchTransactions, b_stateRoot = None,
                  b_merkleRoot = None, b_timestamp = t_stamp, b_status = ''pending'',
                  b_gasUsed = 0, b_layer1TxHash = None\<rparr>
         in case calculateBatchRoots env s1 b of
              Inl e \<Rightarrow> (Inl e, s1)
            | Inr b1 \<Rightarrow>
                submitBatchToLayer1 env rnd b1
                  (s1\<lparr>batches := AList.update batchId b1 (batches s1),
                      batchCounter := batchCounter s1 + 1\<rparr>)))"

text \<open>
  \<^verbatim>\<open>addTransaction\<close>; \<open>t_tx\<close>, \<open>r_tx\<close> and \<open>t_in\<close> are the clock and the random string of
  the queue entry, the last three arguments before the state those of \<^verbatim>\<open>createBatch\<close>.
\<close>

definition addTransaction ::
  "rollup_env \<Rightarrow> transaction \<Rightarrow> int \<Rightarrow> string \<Rightarrow> int \<Rightarrow> int \<Rightarrow> int \<Rightarrow> string \<Rightarrow> rollup_manager
     \<Rightarrow> (error + unit) \<times> rollup_manager" where
  "addTransaction env tx t_tx r_tx t_in t_id t_stamp rnd s =
     (if \<not> validateTransaction tx then (Inl (Error ''Invalid transaction''), s)
      else
        (let txWithMetadata =
               \<lparr>tx_from = tx_from tx, tx_to = tx_to tx, tx_value = tx_value tx,
                tx_data = tx_data tx, tx_nonce = tx_nonce tx, tx_signature = tx_signature tx,
                p_id = generateTransactionId t_tx r_tx, p_timestamp = t_in,
                p_status = ''pending''\<rparr>;
             s1 = s\<lparr>pendingTransactions := pendingTransactions s @ [txWithMetadata]\<rparr>
         in if int (length (pendingTransactions s1)) \<ge> batchSize s1
            then createBatch env t_id t_stamp rnd s1
            else (Inr (), s1)))"

text \<open>The coordinator's operations, for sequences of calls; a call that throws keeps the
  state it left behind.\<close>

datatype rollup_op =
    Initialize bool string
  | AddTransaction transaction int string int int int string
  | CreateBatch int int string

fun rollup_step :: "rollup_env \<Rightarrow> rollup_op \<Rightarrow> rollup_manager \<Rightarrow> rollup_manager" where
  "rollup_step env (Initialize up addr) s = snd (initialize up addr s)"
| "rollup_step env (AddTransaction tx t_tx r_tx t_in t_id t_stamp rnd) s =
     snd (addTransaction env tx t_tx r_tx t_in t_id t_stamp rnd s)"
| "rollup_step env (CreateBatch t_id t_stamp rnd) s = snd (createBatch env t_id t_stamp rnd s)"

definition rollup_run :: "rollup_env \<Rightarrow> rollup_op list \<Rightarrow> rollup_manager \<Rightarrow> rollup_manager" where
  "rollup_run env ops s = fold (rollup_step env) ops s"

text \<open>
  What a call is expected to add to the queue: an \<^verbatim>\<open>addTransaction\<close> call whose transaction
  passes validation adds one entry, made of the six fields of the transaction, its id,
  its timestamp and the status \<^verbatim>\<open>'pending'\<close>; no other call adds one.
\<close>

fun queued :: "rollup_op \<Rightarrow> pending_tx list" where
  "queued (AddTransaction tx t_tx r_tx t_in t_id t_stamp rnd) =
     (if validateTransaction tx
      then [\<lparr>tx_from = tx_from tx, tx_to = tx_to tx, tx_value = tx_value tx,
              tx_data = tx_data tx, tx_nonce = tx_nonce tx, tx_signature = tx_signature tx,
              p_id = ''tx_'' @ num_string t_tx @ ''_'' @ r_tx, p_timestamp = t_in,
              p_status = ''pending''\<rparr>]
      else [])"
| "queued (Initialize up addr) = []"
| "queued (CreateBatch t_id t_stamp rnd) = []"

fun is_CreateBatch :: "rollup_op \<Rightarrow> bool" where
  "is_CreateBatch (CreateBatch t_id t_stamp rnd) = True"
| "is_CreateBatch (Initialize up addr) = False"
| "is_CreateBatch (AddTransaction tx t_tx r_tx t_in t_id t_stamp rnd) = False"

text \<open>A sample digest for closed evaluations; the theorems hold for every digest.\<close>

definition sample_digest :: "string \<Rightarrow> string" where
  "sample_digest s = ''#'' @ s"

text \<open>Sample external functions, a sample transaction and a sample configuration for closed
  evaluations; the theorems hold for every choice of them. The sample digests return the
  bytes they are given.\<close>

definition sample_env :: rollup_env where
  "sample_env =
     \<lparr>keccak_json_tx = (\<lambda>tx. ''0x'' @ p_id tx),
      sha256_utf8 = (\<lambda>d. d),
      sha256_hex = (\<lambda>d. d),
      keccak_concat = (\<lambda>a b c. a @ drop 2 b),
      utf8_json_batch = (\<lambda>(i, txs, t). i),
      encodeFunctionData = (\<lambda>name sr bd. Inr (name @ bd))\<rparr>"

definition sample_tx :: transaction where
  "sample_tx =
     \<lparr>tx_from = JStr ''0xa'', tx_to = JStr ''0xb'', tx_value = JNum 5, tx_data = JStr ''0x00'',
      tx_nonce = JNum 1, tx_signature = JStr (replicate 132 (CHR ''f''))\<rparr>"

definition sample_config :: rollup_config where
  "sample_config = \<lparr>cfg_sequencerAddress = '''', cfg_batchSize = 1, cfg_batchTimeout = 10000,
     cfg_maxGasPerBatch = 1000000\<rparr>"



definition sample_config3 :: rollup_config where
  "sample_config3 = sample_config\<lparr>cfg_batchSize := 3\<rparr>"

text \<open>A manager with a batch size of 3 after \<^verbatim>\<open>initialize\<close> and one accepted transaction,
  and after a second one.\<close>

definition sample_manager1 :: rollup_manager where
  "sample_manager1 =
     rollup_run sample_env
       [Initialize True ''0xc0'', AddTransaction sample_tx 17 ''r'' 17 18 18 ''abc'']
       (RollupManager sample_config3)"

definition sample_manager :: rollup_manager where
  "sample_manager =
     rollup_run sample_env
       [AddTransaction (sample_tx\<lparr>tx_nonce := JNum 2\<rparr>) 19 ''s'' 19 20 20 ''abc'']
       sample_manager1"









section \<open>ValidatorManager (the validator registry)\<close>

text \<open>
  Stakes are JavaScript numbers: \<^verbatim>\<open>NaN\<close>, or a value, of which the model keeps the
  integers (\<open>Num n\<close> is the number \<open>n\<close>, for an \<open>n\<close> that a double holds exactly, as
  every multiple of \<open>10^17\<close> used below is; fractions and the two infinities are left
  out). Every comparison with \<^verbatim>\<open>NaN\<close> is false.
\<close>

datatype jsnum = NaN | Num int

fun js_lt :: "jsnum \<Rightarrow> jsnum \<Rightarrow> bool" where
  "js_lt (Num a) (Num b) = (a < b)"
| "js_lt NaN b = False"
| "js_lt (Num a) NaN = False"

fun js_ge :: "jsnum \<Rightarrow> jsnum \<Rightarrow> bool" where
  "js_ge (Num a) (Num b) = (a \<ge> b)"
| "js_ge NaN b = False"
| "js_ge (Num a) NaN = False"

text \<open>
  \<^verbatim>\<open>uptime\<close> is the quotient the code computes, kept exactly as the pair of its numerator
  and denominator. The three maps are association lists in insertion order; the entry of
  \<^verbatim>\<open>performance\<close> and the field of the validator are one object in the code, so
  \<^verbatim>\<open>updatePerformance\<close> changes both.
\<close>

record perf_stats =
  totalBatches :: nat
  successfulBatches :: nat
  failedBatches :: nat
  uptime :: "nat \<times> nat"

record validator =
  v_address :: string
  v_publicKey :: string
  v_stake :: jsnum
  v_registeredAt :: int
  v_isActive :: bool
  v_performance :: perf_stats

record validator_manager =
  validators :: "(string \<times> validator) list"
  stakes :: "(string \<times> jsnum) list"
  performance :: "(string \<times> perf_stats) list"
  minimumStake :: int

text \<open>\<^verbatim>\<open>config.rollup.minimumStake || 1000000000000000000\<close>: an absent or zero setting
  gives 1 ETH in wei.\<close>

definition ValidatorManager :: "int option \<Rightarrow> validator_manager" where
  "ValidatorManager configured =
     \<lparr>validators = [], stakes = [], performance = [],
      minimumStake = (case configured of
                        None \<Rightarrow> 1000000000000000000
                      | Some m \<Rightarrow> if m \<noteq> 0 then m else 1000000000000000000)\<rparr>"

definition has :: "('k \<times> 'v) list \<Rightarrow> 'k \<Rightarrow> bool" where
  "has m k = (case map_of m k of None \<Rightarrow> False | Some v \<Rightarrow> True)"

text \<open>\<^verbatim>\<open>publicKey && publicKey.length === 130 && publicKey.startsWith('0x')\<close>.\<close>

definition validatePublicKey :: "string \<Rightarrow> bool" where
  "validatePublicKey publicKey =
     (publicKey \<noteq> [] \<and> length publicKey = 130 \<and> take 2 publicKey = ''0x'')"

definition registerValidator ::
  "string \<Rightarrow> string \<Rightarrow> jsnum \<Rightarrow> int \<Rightarrow> validator_manager \<Rightarrow> (error + validator) \<times> validator_manager" where
  "registerValidator address publicKey stake now s =
     (if has (validators s) address then (Inl (Error ''Validator already registered''), s)
      else if js_lt stake (Num (minimumStake s)) then (Inl (Error ''Insufficient stake amount''), s)
      else if \<not> validatePublicKey publicKey then (Inl (Error ''Invalid public key format''), s)
      else
        (let v = \<lparr>v_address = address, v_publicKey = publicKey, v_stake = stake,
                  v_registeredAt = now, v_isActive = True,
                  v_performance = \<lparr>totalBatches = 0, successfulBatches = 0,
                                    failedBatches = 0, uptime = (100, 1)\<rparr>\<rparr>
         in (Inr v, s\<lparr>validators := AList.update address v (validators s),
                      stakes := AList.update address stake (stakes s),
                      performance := AList.update address (v_performance v) (performance s)\<rparr>)))"

definition unregisterValidator ::
  "string \<Rightarrow> validator_manager \<Rightarrow> (error + bool) \<times> validator_manager" where
  "unregisterValidator address s =
     (if \<not> has (validators s) address then (Inl (Error ''Validator not found''), s)
      else (Inr True, s\<lparr>validators := AList.delete address (validators s),
                         stakes := AList.delete address (stakes s),
                         performance := AList.delete address (performance s)\<rparr>))"

definition updateStake ::
  "string \<Rightarrow> jsnum \<Rightarrow> validator_manager \<Rightarrow> (error + validator) \<times> validator_manager" where
  "updateStake address newStake s =
     (case map_of (validators s) address of
        None \<Rightarrow> (Inl (Error ''Validator not found''), s)
      | Some validator \<Rightarrow>
          if js_lt newStake (Num (minimumStake s)) then (Inl (Error ''Insufficient stake amount''), s)
          else
            (let v = validator\<lparr>v_stake := newStake\<rparr>
             in (Inr v, s\<lparr>validators := AList.update address v (validators s),
                          stakes := AList.update address newStake (stakes s)\<rparr>)))"

definition bump :: "bool \<Rightarrow> perf_stats \<Rightarrow> perf_stats" where
  "bump success perf =
     (let p1 = perf\<lparr>totalBatches := totalBatches perf + 1\<rparr>;
          p2 = (if success then p1\<lparr>successfulBatches := successfulBatches p1 + 1\<rparr>
                else p1\<lparr>failedBatches := failedBatches p1 + 1\<rparr>)
      in p2\<lparr>uptime := (successfulBatches p2 * 100, totalBatches p2)\<rparr>)"

definition updatePerformance :: "string \<Rightarrow> bool \<Rightarrow> validator_manager \<Rightarrow> validator_manager" where
  "updatePerformance address success s =
     (case map_of (performance s) address of
        None \<Rightarrow> s
      | Some perf \<Rightarrow>
          s\<lparr>performance := AList.update address (bump success perf) (performance s),
            validators := (case map_of (validators s) address of
                             None \<Rightarrow> validators s
                           | Some v \<Rightarrow> AList.update address
                                         (v\<lparr>v_performance := bump success perf\<rparr>) (validators s))\<rparr>)"

datatype registry_op =
    Register string string jsnum int
  | Unregister string
  | UpdateStake string jsnum
  | UpdatePerformance string bool

fun registry_step :: "registry_op \<Rightarrow> validator_manager \<Rightarrow> validator_manager" where
  "registry_step (Register a pk stake now) s = snd (registerValidator a pk stake now s)"
| "registry_step (Unregister a) s = snd (unregisterValidator a s)"
| "registry_step (UpdateStake a st) s = snd (updateStake a st s)"
| "registry_step (UpdatePerformance a ok) s = updatePerformance a ok s"

definition registry_run :: "registry_op list \<Rightarrow> validator_manager \<Rightarrow> validator_manager" where
  "registry_run ops s = fold registry_step ops s"

text \<open>The invariant: every active validator of the registry has at least the minimum stake
  (\<^verbatim>\<open>stake >= minimumStake\<close>).\<close>

definition staked :: "validator_manager \<Rightarrow> bool" where
  "staked s =
     list_all (\<lambda>(a, v). v_isActive v \<longrightarrow> js_ge (v_stake v) (Num (minimumStake s))) (validators s)"

text \<open>The operations whose stake argument is not \<^verbatim>\<open>NaN\<close>.\<close>

fun numeric :: "registry_op \<Rightarrow> bool" where
  "numeric (Register a pk stake now) = (stake \<noteq> NaN)"
| "numeric (UpdateStake a newStake) = (newStake \<noteq> NaN)"
| "numeric (Unregister a) = True"
| "numeric (UpdatePerformance a ok) = True"

definition sample_key :: string where
  "sample_key = ''0x'' @ replicate 128 (CHR ''a'')"

definition sample_registry :: validator_manager where
  "sample_registry =
     registry_run [Register ''0xv1'' sample_key (Num 2000000000000000000) 5,
                   UpdatePerformance ''0xv1'' True,
                   UpdateStake ''0xv1'' (Num 3000000000000000000),
                   Register ''0xv2'' sample_key (Num 1000000000000000000) 6,
                   Unregister ''0xv2'']
       (ValidatorManager None)"

section \<open>CrossChainBridge (the bridge coordinator): withdrawals\<close>

text \<open>
  A withdrawal record. Amounts are the \<^verbatim>\<open>BigInt\<close> wei values that \<^verbatim>\<open>ethers.parseEther\<close>
  returns; times are milliseconds, as \<^verbatim>\<open>Date.now()\<close> reads them. The deposit half of the
  class is not modelled.
\<close>

record withdrawal =
  w_id :: string
  w_userAddress :: jsv
  w_tokenAddress :: jsv
  w_amount :: int
  w_status :: string
  w_timestamp :: int
  w_unlockTime :: int
  w_layer2TxHash :: "string option"
  w_layer1TxHash :: "string option"
  w_proof :: "string option"
  w_options :: jsv

text \<open>An entry of \<^verbatim>\<open>bridgeEvents\<close>; its \<^verbatim>\<open>data\<close> is the withdrawal object itself, named here by
  its id.\<close>

record bridge_event =
  e_type :: string
  e_data :: string
  e_timestamp :: int

record bridge =
  withdrawals :: "(string \<times> withdrawal) list"
  bridgeEvents :: "bridge_event list"
  layer1Contract :: "contract option"
  layer2Contract :: "contract option"
  bridgeAddress :: "string option"
  minDepositAmount :: int
  maxDepositAmount :: int
  withdrawalDelay :: int

text \<open>
  What the bridge calls outside the repository:
  \<^item> \<open>parseEther a\<close>: \<^verbatim>\<open>ethers.parseEther(a.toString())\<close>, which throws on what is no decimal
    amount;
  \<^item> \<open>keccak_json_proof\<close>: \<^verbatim>\<open>ethers.keccak256(ethers.toUtf8Bytes(JSON.stringify(proofData)))\<close>;
  \<^item> \<open>encodeBurn\<close>, \<open>encodeWithdraw\<close>: \<^verbatim>\<open>interface.encodeFunctionData\<close> for \<^verbatim>\<open>'burn'\<close> and
    \<^verbatim>\<open>'withdraw'\<close>, which throw on arguments that do not fit the ABI.
\<close>

record bridge_env =
  parseEther :: "jsv \<Rightarrow> error + int"
  keccak_json_proof :: "string \<times> jsv \<times> jsv \<times> string \<times> int \<Rightarrow> string"
  encodeBurn :: "jsv \<Rightarrow> int \<Rightarrow> error + string"
  encodeWithdraw :: "string option \<Rightarrow> jsv \<Rightarrow> int \<Rightarrow> error + string"

text \<open>The constructor; \<^verbatim>\<open>parseEther('0.001')\<close> is \<open>10^15\<close> wei and \<^verbatim>\<open>parseEther('1000')\<close> is
  \<open>10^21\<close> wei.\<close>

definition CrossChainBridge :: bridge where
  "CrossChainBridge =
     \<lparr>withdrawals = [], bridgeEvents = [], layer1Contract = None, layer2Contract = None,
      bridgeAddress = None, minDepositAmount = 1000000000000000,
      maxDepositAmount = 1000000000000000000000,
      withdrawalDelay = 7 * 24 * 60 * 60\<rparr>"

definition bridge_initialize ::
  "bool \<Rightarrow> string \<Rightarrow> string \<Rightarrow> bridge \<Rightarrow> (error + unit) \<times> bridge" where
  "bridge_initialize providerUp layer1Address layer2Address s =
     (if \<not> providerUp then (Inl (ExternalError ''getNetwork''), s)
      else (Inr (), s\<lparr>layer1Contract := Some \<lparr>c_address = layer1Address\<rparr>,
                        layer2Contract := Some \<lparr>c_address = layer2Address\<rparr>,
                        bridgeAddress := Some layer1Address\<rparr>))"

definition ZeroAddress :: string where
  "ZeroAddress = ''0x'' @ replicate 40 (CHR ''0'')"

definition generateWithdrawalId :: "int \<Rightarrow> string \<Rightarrow> string" where
  "generateWithdrawalId now rnd = ''withdrawal_'' @ num_string now @ ''_'' @ rnd"

definition generateWithdrawalProof :: "bridge_env \<Rightarrow> withdrawal \<Rightarrow> string" where
  "generateWithdrawalProof env w =
     keccak_json_proof env
       (w_id w, w_userAddress w, w_tokenAddress w, num_string (w_amount w), w_timestamp w)"

text \<open>\<^verbatim>\<open>proof && proof.length === 66\<close>, as a condition.\<close>

definition verifyWithdrawalProof :: "string option \<Rightarrow> bool" where
  "verifyWithdrawalProof prf =
     (case prf of None \<Rightarrow> False | Some p \<Rightarrow> p \<noteq> [] \<and> length p = 66)"

text \<open>\<^verbatim>\<open>addBridgeEvent\<close>: append, then keep the last 1000 (\<^verbatim>\<open>slice(-1000)\<close>).\<close>

definition addBridgeEvent :: "string \<Rightarrow> string \<Rightarrow> int \<Rightarrow> bridge \<Rightarrow> bridge" where
  "addBridgeEvent ty ident now s =
     (let evs = bridgeEvents s @ [\<lparr>e_type = ty, e_data = ident, e_timestamp = now\<rparr>]
      in s\<lparr>bridgeEvents := (if int (length evs) > 1000
                            then drop (nat (int (length evs) - 1000)) evs else evs)\<rparr>)"

text \<open>
  \<^verbatim>\<open>burnTokensOnLayer2\<close>. The withdrawal object is the one stored in \<^verbatim>\<open>withdrawals\<close>;
  whatever throws inside the \<^verbatim>\<open>try\<close> sets its status to \<^verbatim>\<open>'failed'\<close>.
\<close>

definition burnFailed :: "error \<Rightarrow> withdrawal \<Rightarrow> bridge \<Rightarrow> (error + unit) \<times> bridge" where
  "burnFailed e w s =
     (Inl e, s\<lparr>withdrawals := AList.update (w_id w) (w\<lparr>w_status := ''failed''\<rparr>) (withdrawals s)\<rparr>)"

definition burnTokensOnLayer2 ::
  "bridge_env \<Rightarrow> withdrawal \<Rightarrow> string \<Rightarrow> int \<Rightarrow> bridge \<Rightarrow> (error + unit) \<times> bridge" where
  "burnTokensOnLayer2 env w r_tx t_event s =
     (case layer2Contract s of
        None \<Rightarrow> burnFailed TypeError w s
      | Some c \<Rightarrow>
          (case encodeBurn env (w_tokenAddress w) (w_amount w) of
             Inl e \<Rightarrow> burnFailed e w s
           | Inr burnData \<Rightarrow>
               (let w1 = w\<lparr>w_layer2TxHash := Some (''0x'' @ r_tx), w_status := ''burned''\<rparr>;
                    w2 = w1\<lparr>w_proof := Some (generateWithdrawalProof env w1)\<rparr>
                in (Inr (),
                    addBridgeEvent ''withdrawal_initiated'' (w_id w2) t_event
                      (s\<lparr>withdrawals := AList.update (w_id w) w2 (withdrawals s)\<rparr>)))))"

record withdraw_result =
  r_withdrawalId :: string
  r_status :: string
  r_unlockTime :: int
  r_estimatedTime :: string

text \<open>
  \<^verbatim>\<open>withdraw\<close>. \<open>t_id\<close>, \<open>t_stamp\<close>, \<open>t_unlock\<close> and \<open>t_event\<close> are its four readings of the
  clock (the id, \<^verbatim>\<open>timestamp\<close>, \<^verbatim>\<open>unlockTime\<close> and the event), \<open>r_id\<close> and \<open>r_tx\<close> its two random
  strings. The last parameter is declared \<^verbatim>\<open>options = {}\<close>: an argument that is left out or
  \<^verbatim>\<open>undefined\<close> is replaced by the empty object. After the burn the log entry formats \<^verbatim>\<open>new Date(unlockTime).toISOString()\<close>,
  which throws a \<^verbatim>\<open>RangeError\<close> outside the range of valid dates.
\<close>

definition valid_date :: "int \<Rightarrow> bool" where
  "valid_date t = (- 8640000000000000 \<le> t \<and> t \<le> 8640000000000000)"

definition withdraw ::
  "bridge_env \<Rightarrow> jsv \<Rightarrow> jsv \<Rightarrow> jsv \<Rightarrow> jsv \<Rightarrow> int \<Rightarrow> string \<Rightarrow> int \<Rightarrow> int \<Rightarrow> string \<Rightarrow> int \<Rightarrow> bridge
     \<Rightarrow> (error + withdraw_result) \<times> bridge" where
  "withdraw env userAddress tokenAddress amount opts t_id r_id t_stamp t_unlock r_tx t_event s =
     (case parseEther env amount of
        Inl e \<Rightarrow> (Inl e, s)
      | Inr withdrawalAmount \<Rightarrow>
          if withdrawalAmount < minDepositAmount s
          then (Inl (Error ''Withdrawal amount too small''), s)
          else
            (let options = (if opts = JUndefined then JObj [] else opts);
                 withdrawalId = generateWithdrawalId t_id r_id;
                 w = \<lparr>w_id = withdrawalId, w_userAddress = userAddress,
                      w_tokenAddress = (if truthy tokenAddress then tokenAddress
                                        else JStr ZeroAddress),
                      w_amount = withdrawalAmount, w_status = ''pending'',
                      w_timestamp = t_stamp,
                      w_unlockTime = t_unlock + withdrawalDelay s * 1000,
                      w_layer2TxHash = None, w_layer1TxHash = None, w_proof = None,
                      w_options = options\<rparr>;
                 s1 = s\<lparr>withdrawals := AList.update withdrawalId w (withdrawals s)\<rparr>
             in case burnTokensOnLayer2 env w r_tx t_event s1 of
                  (Inl e, s2) \<Rightarrow> (Inl e, s2)
                | (Inr u, s2) \<Rightarrow>
                    if \<not> valid_date (w_unlockTime w) then (Inl (RangeError ''Invalid time value''), s2)
                    else (Inr \<lparr>r_withdrawalId = withdrawalId, r_status = ''pending'',
                               r_unlockTime = w_unlockTime w, r_estimatedTime = ''7 days''\<rparr>,
                          s2)))"

record complete_result =
  cr_withdrawalId :: string
  cr_status :: string
  cr_layer1TxHash :: "string option"

text \<open>\<^verbatim>\<open>completeWithdrawal\<close>; \<open>now\<close> is its reading of the clock for the delay test.\<close>

definition completeWithdrawal ::
  "bridge_env \<Rightarrow> string \<Rightarrow> int \<Rightarrow> string \<Rightarrow> int \<Rightarrow> bridge \<Rightarrow> (error + complete_result) \<times> bridge" where
  "completeWithdrawal env withdrawalId now r_tx t_event s =
     (case map_of (withdrawals s) withdrawalId of
        None \<Rightarrow> (Inl (Error ''Withdrawal not found''), s)
      | Some w \<Rightarrow>
          if w_status w \<noteq> ''burned''
          then (Inl (Error ''Withdrawal not ready for completion''), s)
          else if now < w_unlockTime w
          then (Inl (Error ''Withdrawal still in delay period''), s)
          else if \<not> verifyWithdrawalProof (w_proof w)
          then (Inl (Error ''Invalid withdrawal proof''), s)
          else
            (case layer1Contract s of
               None \<Rightarrow> (Inl TypeError, s)
             | Some c \<Rightarrow>
                 (case encodeWithdraw env (w_proof w) (w_tokenAddress w) (w_amount w) of
                    Inl e \<Rightarrow> (Inl e, s)
                  | Inr withdrawData \<Rightarrow>
                      (let w' = w\<lparr>w_layer1TxHash := Some (''0x'' @ r_tx),
                                  w_status := ''completed''\<rparr>
                       in (Inr \<lparr>cr_withdrawalId = withdrawalId, cr_status = ''completed'',
                                 cr_layer1TxHash = w_layer1TxHash w'\<rparr>,
                           addBridgeEvent ''withdrawal_completed'' (w_id w') t_event
                             (s\<lparr>withdrawals :=
                                  AList.update withdrawalId w' (withdrawals s)\<rparr>))))))"

datatype bridge_op =
    BridgeInitialize bool string string
  | Withdraw jsv jsv jsv jsv int string int int string int
  | CompleteWithdrawal string int string int

fun bridge_step :: "bridge_env \<Rightarrow> bridge_op \<Rightarrow> bridge \<Rightarrow> bridge" where
  "bridge_step env (BridgeInitialize up a1 a2) s = snd (bridge_initialize up a1 a2 s)"
| "bridge_step env (Withdraw u t a opts t_id r_id t_stamp t_unlock r_tx t_event) s =
     snd (withdraw env u t a opts t_id r_id t_stamp t_unlock r_tx t_event s)"
| "bridge_step env (CompleteWithdrawal wid now r_tx t_event) s =
     snd (completeWithdrawal env wid now r_tx t_event s)"

definition bridge_run :: "bridge_env \<Rightarrow> bridge_op list \<Rightarrow> bridge \<Rightarrow> bridge" where
  "bridge_run env ops s = fold (bridge_step env) ops s"

text \<open>Sample external functions of the bridge: amounts are given in whole ether, and the
  proof hash has the 66 characters of a \<^verbatim>\<open>0x\<close>-prefixed 32-byte digest.\<close>

definition sample_bridge_env :: bridge_env where
  "sample_bridge_env =
     \<lparr>parseEther = (\<lambda>a. case a of JNum n \<Rightarrow> Inr (n * 1000000000000000000)
                               | _ \<Rightarrow> Inl (ExternalError ''invalid FixedNumber string value'')),
      keccak_json_proof = (\<lambda>(i, u, t, a, ts). ''0x'' @ take 64 (i @ replicate 64 (CHR ''0''))),
      encodeBurn = (\<lambda>t a. Inr ''burn''),
      encodeWithdraw = (\<lambda>p t a. Inr ''withdraw'')\<rparr>"

definition sample_bridge :: bridge where
  "sample_bridge =
     bridge_run sample_bridge_env
       [BridgeInitialize True ''0xb1'' ''0xb2'',
        Withdraw (JStr ''0xu'') JNull (JNum 5) JUndefined 1000 ''r'' 1000 1000 ''t'' 1000]
       CrossChainBridge"


definition sample_withdrawal :: withdrawal where
  "sample_withdrawal =
     \<lparr>w_id = ''withdrawal_1000_r'', w_userAddress = JStr ''0xu'',
      w_tokenAddress = JStr ZeroAddress, w_amount = 5000000000000000000,
      w_status = ''burned'', w_timestamp = 1000, w_unlockTime = 604801000,
      w_layer2TxHash = Some ''0xt'', w_layer1TxHash = None,
      w_proof = Some (''0x'' @ ''withdrawal_1000_r'' @ replicate 47 (CHR ''0'')),
      w_options = JObj []\<rparr>"

text \<open>Sample functions whose proof hash is too short, and the bridge after the same calls
  with them.\<close>

definition short_proof_env :: bridge_env where
  "short_proof_env = sample_bridge_env\<lparr>keccak_json_proof := \<lambda>x. ''0xbad''\<rparr>"

definition short_proof_bridge :: bridge where
  "short_proof_bridge =
     bridge_run short_proof_env
       [BridgeInitialize True ''0xb1'' ''0xb2'',
        Withdraw (JStr ''0xu'') JNull (JNum 5) JUndefined 1000 ''r'' 1000 1000 ''t'' 1000]
       CrossChainBridge"

section \<open>RollupContract (src/contracts/BridgeContract.sol): challenge and finalisation\<close>

text \<open>
  The settlement-layer contract, where \<^verbatim>\<open>challengeBatch\<close> and \<^verbatim>\<open>finalizeBatch\<close> live. A
  \<^verbatim>\<open>uint256\<close>, a \<^verbatim>\<open>bytes32\<close> and an \<^verbatim>\<open>address\<close> are integers; Solidity 0.8 checks its
  arithmetic, so a sum beyond \<open>2^256 - 1\<close> reverts with a panic. A failed \<^verbatim>\<open>require\<close>
  reverts with its message, a failed \<^verbatim>\<open>transfer\<close> reverts without one, and a reverted call
  leaves the contract as it was. Fields
  that share a name with the JavaScript classes carry the prefix \<open>l1_\<close> or \<open>sb_\<close>.
\<close>

datatype revert = Revert string | Panic | TransferFailed

definition uint_max :: int where
  "uint_max = 2 ^ 256 - 1"

definition checked_add :: "int \<Rightarrow> int \<Rightarrow> revert + int" where
  "checked_add a b = (if a + b > uint_max then Inl Panic else Inr (a + b))"

definition checked_mul :: "int \<Rightarrow> int \<Rightarrow> revert + int" where
  "checked_mul a b = (if a * b > uint_max then Inl Panic else Inr (a * b))"

record sol_batch =
  sb_stateRoot :: int
  sb_merkleRoot :: int
  sb_timestamp :: int
  sb_sequencer :: int
  isChallenged :: bool
  isFinalized :: bool

text \<open>The state variables, with \<^verbatim>\<open>owner\<close> and \<^verbatim>\<open>paused\<close> of the inherited \<^verbatim>\<open>Ownable\<close> and
  \<^verbatim>\<open>Pausable\<close>, and the contract's balance.\<close>

record rollup_contract =
  l1_batches :: "int \<Rightarrow> sol_batch"
  l1_validators :: "int \<Rightarrow> bool"
  validatorStakes :: "int \<Rightarrow> int"
  currentStateRoot :: int
  l1_batchCounter :: int
  sequencer :: int
  challengePeriod :: int
  l1_minimumStake :: int
  maxBatchSize :: int
  owner :: int
  paused :: bool
  balance :: int

definition MAX_CHALLENGE_PERIOD :: int where
  "MAX_CHALLENGE_PERIOD = 7 * 24 * 60 * 60"

definition MIN_STAKE :: int where
  "MIN_STAKE = 1000000000000000000"

definition MAX_BATCH_SIZE :: int where
  "MAX_BATCH_SIZE = 1000"

definition zero_batch :: sol_batch where
  "zero_batch = \<lparr>sb_stateRoot = 0, sb_merkleRoot = 0, sb_timestamp = 0, sb_sequencer = 0,
                  isChallenged = False, isFinalized = False\<rparr>"

text \<open>The constructor; \<open>deployer\<close> is \<^verbatim>\<open>msg.sender\<close>, whom \<^verbatim>\<open>Ownable\<close> makes the owner.\<close>

definition RollupContract :: "int \<Rightarrow> int \<Rightarrow> int \<Rightarrow> int \<Rightarrow> revert + rollup_contract" where
  "RollupContract deployer sequencer0 challengePeriod0 minimumStake0 =
     (if \<not> sequencer0 \<noteq> 0 then Inl (Revert ''Invalid sequencer address'')
      else if \<not> challengePeriod0 \<le> MAX_CHALLENGE_PERIOD then Inl (Revert ''Challenge period too long'')
      else if \<not> minimumStake0 \<ge> MIN_STAKE then Inl (Revert ''Minimum stake too low'')
      else Inr \<lparr>l1_batches = (\<lambda>i. zero_batch), l1_validators = (\<lambda>a. False),
                validatorStakes = (\<lambda>a. 0), currentStateRoot = 0, l1_batchCounter = 0,
                sequencer = sequencer0, challengePeriod = challengePeriod0,
                l1_minimumStake = minimumStake0, maxBatchSize = MAX_BATCH_SIZE,
                owner = deployer, paused = False, balance = 0\<rparr>)"

text \<open>\<open>sender\<close> is \<^verbatim>\<open>msg.sender\<close>, \<open>now\<close> is \<^verbatim>\<open>block.timestamp\<close>, \<open>len\<close> is
  \<^verbatim>\<open>batchData.length\<close>. The modifiers run in the order they are written.\<close>

definition submitBatch ::
  "int \<Rightarrow> int \<Rightarrow> int \<Rightarrow> int \<Rightarrow> int \<Rightarrow> rollup_contract \<Rightarrow> revert + rollup_contract" where
  "submitBatch sender now stateRoot' merkleRoot len s =
     (if \<not> sender = sequencer s then Inl (Revert ''Only sequencer can call this function'')
      else if paused s then Inl (Revert ''Pausable: paused'')
      else if \<not> stateRoot' \<noteq> 0 then Inl (Revert ''Invalid state root'')
      else if \<not> merkleRoot \<noteq> 0 then Inl (Revert ''Invalid merkle root'')
      else if \<not> len > 0 then Inl (Revert ''Empty batch data'')
      else
        (case checked_mul (maxBatchSize s) 32 of
           Inl e \<Rightarrow> Inl e
         | Inr limit \<Rightarrow>
             if \<not> len \<le> limit then Inl (Revert ''Batch too large'')
             else
               (case checked_add (l1_batchCounter s) 1 of
                  Inl e \<Rightarrow> Inl e
                | Inr next \<Rightarrow>
                    Inr (s\<lparr>l1_batches := (l1_batches s)
                               (l1_batchCounter s :=
                                  \<lparr>sb_stateRoot = stateRoot', sb_merkleRoot = merkleRoot,
                                   sb_timestamp = now, sb_sequencer = sender,
                                   isChallenged = False, isFinalized = False\<rparr>),
                           l1_batchCounter := next\<rparr>))))"

definition challengeBatch :: "int \<Rightarrow> int \<Rightarrow> int \<Rightarrow> rollup_contract \<Rightarrow> revert + rollup_contract" where
  "challengeBatch sender now batchIndex s =
     (if \<not> l1_validators s sender then Inl (Revert ''Only validator can call this function'')
      else if \<not> batchIndex < l1_batchCounter s then Inl (Revert ''Invalid batch index'')
      else if paused s then Inl (Revert ''Pausable: paused'')
      else
        (let b = l1_batches s batchIndex
         in if \<not> \<not> isChallenged b then Inl (Revert ''Batch already challenged'')
            else if \<not> \<not> isFinalized b then Inl (Revert ''Batch already finalized'')
            else
              (case checked_add (sb_timestamp b) (challengePeriod s) of
                 Inl e \<Rightarrow> Inl e
               | Inr deadline \<Rightarrow>
                   if \<not> now \<le> deadline then Inl (Revert ''Challenge period expired'')
                   else Inr (s\<lparr>l1_batches := (l1_batches s)
                                  (batchIndex := b\<lparr>isChallenged := True\<rparr>)\<rparr>))))"

definition finalizeBatch :: "int \<Rightarrow> int \<Rightarrow> rollup_contract \<Rightarrow> revert + rollup_contract" where
  "finalizeBatch now batchIndex s =
     (if \<not> batchIndex < l1_batchCounter s then Inl (Revert ''Invalid batch index'')
      else if paused s then Inl (Revert ''Pausable: paused'')
      else
        (let b = l1_batches s batchIndex
         in if \<not> \<not> isFinalized b then Inl (Revert ''Batch already finalized'')
            else
              (case checked_add (sb_timestamp b) (challengePeriod s) of
                 Inl e \<Rightarrow> Inl e
               | Inr deadline \<Rightarrow>
                   if \<not> now > deadline then Inl (Revert ''Challenge period not expired'')
                   else
                     (let s1 = (if \<not> isChallenged b then s\<lparr>currentStateRoot := sb_stateRoot b\<rparr>
                                else s)
                      in Inr (s1\<lparr>l1_batches := (l1_batches s1)
                                    (batchIndex := b\<lparr>isFinalized := True\<rparr>)\<rparr>)))))"

text \<open>The other functions that change the state. \<open>accepts\<close> says whether the
  recipient of a \<^verbatim>\<open>transfer\<close> takes it; a transfer beyond the balance reverts.\<close>

definition l1_registerValidator :: "int \<Rightarrow> int \<Rightarrow> rollup_contract \<Rightarrow> revert + rollup_contract" where
  "l1_registerValidator sender val s =
     (if paused s then Inl (Revert ''Pausable: paused'')
      else if \<not> val \<ge> l1_minimumStake s then Inl (Revert ''Insufficient stake'')
      else if \<not> \<not> l1_validators s sender then Inl (Revert ''Already registered'')
      else Inr (s\<lparr>l1_validators := (l1_validators s)(sender := True),
                    validatorStakes := (validatorStakes s)(sender := val),
                    balance := balance s + val\<rparr>))"

definition l1_unregisterValidator :: "int \<Rightarrow> bool \<Rightarrow> rollup_contract \<Rightarrow> revert + rollup_contract" where
  "l1_unregisterValidator sender accepts s =
     (if \<not> l1_validators s sender then Inl (Revert ''Only validator can call this function'')
      else if paused s then Inl (Revert ''Pausable: paused'')
      else
        (let stake = validatorStakes s sender
         in if \<not> stake > 0 then Inl (Revert ''No stake to withdraw'')
            else if balance s < stake \<or> \<not> accepts then Inl TransferFailed
            else Inr (s\<lparr>l1_validators := (l1_validators s)(sender := False),
                          validatorStakes := (validatorStakes s)(sender := 0),
                          balance := balance s - stake\<rparr>)))"

definition updateSequencer :: "int \<Rightarrow> int \<Rightarrow> rollup_contract \<Rightarrow> revert + rollup_contract" where
  "updateSequencer sender newSequencer s =
     (if sender \<noteq> owner s then Inl (Revert ''Ownable: caller is not the owner'')
      else if \<not> newSequencer \<noteq> 0 then Inl (Revert ''Invalid sequencer address'')
      else if \<not> newSequencer \<noteq> sequencer s then Inl (Revert ''Same sequencer address'')
      else Inr (s\<lparr>sequencer := newSequencer\<rparr>))"

definition updateChallengePeriod :: "int \<Rightarrow> int \<Rightarrow> rollup_contract \<Rightarrow> revert + rollup_contract" where
  "updateChallengePeriod sender newChallengePeriod s =
     (if sender \<noteq> owner s then Inl (Revert ''Ownable: caller is not the owner'')
      else if \<not> newChallengePeriod \<le> MAX_CHALLENGE_PERIOD then Inl (Revert ''Challenge period too long'')
      else if \<not> newChallengePeriod \<noteq> challengePeriod s then Inl (Revert ''Same challenge period'')
      else Inr (s\<lparr>challengePeriod := newChallengePeriod\<rparr>))"

definition updateMinimumStake :: "int \<Rightarrow> int \<Rightarrow> rollup_contract \<Rightarrow> revert + rollup_contract" where
  "updateMinimumStake sender newMinimumStake s =
     (if sender \<noteq> owner s then Inl (Revert ''Ownable: caller is not the owner'')
      else if \<not> newMinimumStake \<ge> MIN_STAKE then Inl (Revert ''Minimum stake too low'')
      else if \<not> newMinimumStake \<noteq> l1_minimumStake s then Inl (Revert ''Same minimum stake'')
      else Inr (s\<lparr>l1_minimumStake := newMinimumStake\<rparr>))"

definition updateMaxBatchSize :: "int \<Rightarrow> int \<Rightarrow> rollup_contract \<Rightarrow> revert + rollup_contract" where
  "updateMaxBatchSize sender newMaxBatchSize s =
     (if sender \<noteq> owner s then Inl (Revert ''Ownable: caller is not the owner'')
      else if \<not> newMaxBatchSize \<le> MAX_BATCH_SIZE then Inl (Revert ''Batch size too large'')
      else if \<not> newMaxBatchSize > 0 then Inl (Revert ''Invalid batch size'')
      else if \<not> newMaxBatchSize \<noteq> maxBatchSize s then Inl (Revert ''Same batch size'')
      else Inr (s\<lparr>maxBatchSize := newMaxBatchSize\<rparr>))"

definition pause :: "int \<Rightarrow> rollup_contract \<Rightarrow> revert + rollup_contract" where
  "pause sender s =
     (if sender \<noteq> owner s then Inl (Revert ''Ownable: caller is not the owner'')
      else if paused s then Inl (Revert ''Pausable: paused'')
      else Inr (s\<lparr>paused := True\<rparr>))"

definition unpause :: "int \<Rightarrow> rollup_contract \<Rightarrow> revert + rollup_contract" where
  "unpause sender s =
     (if sender \<noteq> owner s then Inl (Revert ''Ownable: caller is not the owner'')
      else if \<not> paused s then Inl (Revert ''Pausable: not paused'')
      else Inr (s\<lparr>paused := False\<rparr>))"

definition emergencyWithdraw :: "int \<Rightarrow> bool \<Rightarrow> rollup_contract \<Rightarrow> revert + rollup_contract" where
  "emergencyWithdraw sender accepts s =
     (if sender \<noteq> owner s then Inl (Revert ''Ownable: caller is not the owner'')
      else if \<not> balance s > 0 then Inl (Revert ''No funds to withdraw'')
      else if \<not> accepts then Inl TransferFailed
      else Inr (s\<lparr>balance := 0\<rparr>))"

text \<open>\<^verbatim>\<open>transferOwnership\<close> and \<^verbatim>\<open>renounceOwnership\<close>, inherited from \<^verbatim>\<open>Ownable\<close>.\<close>

definition transferOwnership :: "int \<Rightarrow> int \<Rightarrow> rollup_contract \<Rightarrow> revert + rollup_contract" where
  "transferOwnership sender newOwner s =
     (if sender \<noteq> owner s then Inl (Revert ''Ownable: caller is not the owner'')
      else if \<not> newOwner \<noteq> 0 then Inl (Revert ''Ownable: new owner is the zero address'')
      else Inr (s\<lparr>owner := newOwner\<rparr>))"

definition renounceOwnership :: "int \<Rightarrow> rollup_contract \<Rightarrow> revert + rollup_contract" where
  "renounceOwnership sender s =
     (if sender \<noteq> owner s then Inl (Revert ''Ownable: caller is not the owner'')
      else Inr (s\<lparr>owner := 0\<rparr>))"

datatype l1_call =
    SubmitBatch int int int int int
  | ChallengeBatch int int int
  | FinalizeBatch int int
  | RegisterValidator int int
  | UnregisterValidator int bool
  | UpdateSequencer int int
  | UpdateChallengePeriod int int
  | UpdateMinimumStake int int
  | UpdateMaxBatchSize int int
  | Pause int
  | Unpause int
  | EmergencyWithdraw int bool
  | TransferOwnership int int
  | RenounceOwnership int

fun l1_exec :: "l1_call \<Rightarrow> rollup_contract \<Rightarrow> revert + rollup_contract" where
  "l1_exec (SubmitBatch sender now sr mr len) s = submitBatch sender now sr mr len s"
| "l1_exec (ChallengeBatch sender now i) s = challengeBatch sender now i s"
| "l1_exec (FinalizeBatch now i) s = finalizeBatch now i s"
| "l1_exec (RegisterValidator sender val) s = l1_registerValidator sender val s"
| "l1_exec (UnregisterValidator sender accepts) s = l1_unregisterValidator sender accepts s"
| "l1_exec (UpdateSequencer sender a) s = updateSequencer sender a s"
| "l1_exec (UpdateChallengePeriod sender p) s = updateChallengePeriod sender p s"
| "l1_exec (UpdateMinimumStake sender m) s = updateMinimumStake sender m s"
| "l1_exec (UpdateMaxBatchSize sender m) s = updateMaxBatchSize sender m s"
| "l1_exec (Pause sender) s = pause sender s"
| "l1_exec (Unpause sender) s = unpause sender s"
| "l1_exec (EmergencyWithdraw sender accepts) s = emergencyWithdraw sender accepts s"
| "l1_exec (TransferOwnership sender a) s = transferOwnership sender a s"
| "l1_exec (RenounceOwnership sender) s = renounceOwnership sender s"

text \<open>A transaction that reverts changes nothing.\<close>

definition l1_step :: "l1_call \<Rightarrow> rollup_contract \<Rightarrow> rollup_contract" where
  "l1_step c s = (case l1_exec c s of Inl e \<Rightarrow> s | Inr s' \<Rightarrow> s')"

definition l1_run :: "l1_call list \<Rightarrow> rollup_contract \<Rightarrow> rollup_contract" where
  "l1_run cs s = fold l1_step cs s"

text \<open>A sample deployment: owner 1, sequencer 2, a challenge period of one hour, then a
  validator 3 registers and the sequencer submits a batch at time 100.\<close>

definition sample_deployment :: rollup_contract where
  "sample_deployment =
     \<lparr>l1_batches = (\<lambda>i. zero_batch), l1_validators = (\<lambda>a. False),
      validatorStakes = (\<lambda>a. 0), currentStateRoot = 0, l1_batchCounter = 0,
      sequencer = 2, challengePeriod = 3600, l1_minimumStake = 1000000000000000000,
      maxBatchSize = 1000, owner = 1, paused = False, balance = 0\<rparr>"

definition sample_contract :: rollup_contract where
  "sample_contract =
     l1_run [RegisterValidator 3 1000000000000000000, SubmitBatch 2 100 11 12 64]
       sample_deployment"

text \<open>
  What every call keeps of the batch at an index below the counter: the counter does not
  go down, and the two flags of the batch, once set, stay set.
\<close>

definition keeps :: "int \<Rightarrow> rollup_contract \<Rightarrow> rollup_contract \<Rightarrow> bool" where
  "keeps i s s' =
     (l1_batchCounter s \<le> l1_batchCounter s'
      \<and> (isFinalized (l1_batches s i) \<longrightarrow> isFinalized (l1_batches s' i))
      \<and> (isChallenged (l1_batches s i) \<longrightarrow> isChallenged (l1_batches s' i)))"

definition challenged_contract :: rollup_contract where
  "challenged_contract = l1_run [ChallengeBatch 3 150 0] sample_contract"

section \<open>Properties of the MerkleTree\<close>

lemma buildLoop_not_Nil: "acc \<noteq> [] \<Longrightarrow> buildLoop hN cur acc \<noteq> []"
  by (induction hN cur acc rule: buildLoop.induct) (subst buildLoop.simps, simp)

lemma buildLoop_last_level:
  "acc \<noteq> [] \<Longrightarrow> \<exists>lv. last (map Arr (buildLoop hN cur acc)) = Arr lv"
  using buildLoop_not_Nil [of acc hN cur] by (simp add: last_map)

lemma root_of_many:
  assumes "2 \<le> length ls"
  shows "\<exists>lv. getRoot (MerkleTree hL hN ls) = Some (Arr lv)"
proof -
  define lvs where "lvs = map (hashLeaf hL) ls"
  define t where "t = map Arr (buildLoop hN lvs [lvs])"
  have ne: "t \<noteq> []"
    using buildLoop_not_Nil [of "[lvs]" hN lvs] by (simp add: t_def)
  from assms have len: "length lvs \<noteq> 0" "length lvs \<noteq> 1"
    by (auto simp: lvs_def)
  have bt: "buildTree hN lvs = t"
    unfolding buildTree_def t_def using len by simp
  obtain lv where lv: "last t = Arr lv"
    using buildLoop_last_level [of "[lvs]" hN lvs] by (auto simp: t_def)
  have nth: "t ! (length t - 1) = Arr lv"
    using ne lv by (simp add: last_conv_nth)
  have "getRoot (MerkleTree hL hN ls) = Some (t ! (length t - 1))"
    using ne bt by (simp add: getRoot_def MerkleTree_def Let_def lvs_def [symmetric])
  with nth show ?thesis by simp
qed

text \<open>
  C1 (as the code behaves). For a list of two or more leaves the root that the
  constructor stores is the top level of the tree, an array of one digest, not the
  digest itself. For every valid index \<^verbatim>\<open>getProof\<close> returns a proof, and \<^verbatim>\<open>verifyProof\<close>
  of that proof against the stored root does not return true: it throws.
\<close>

theorem verifyProof_against_built_root_throws:
  assumes "2 \<le> length ls" and "0 \<le> i" and "i < int (length ls)"
  shows "\<exists>p. getProof (MerkleTree hL hN ls) i = Inr p
           \<and> verifyProof hN (hashLeaf hL (ls ! nat i)) p (getRoot (MerkleTree hL hN ls))
               = Inl TypeError"
proof -
  obtain lv where rt: "getRoot (MerkleTree hL hN ls) = Some (Arr lv)"
    using root_of_many [OF assms(1)] by blast
  have "getProof (MerkleTree hL hN ls) i
          = Inr (proofLoop (tree (MerkleTree hL hN ls)) (nat i) 0 [])"
    using assms(2,3) by (simp add: getProof_def MerkleTree_def Let_def)
  moreover have "verifyProof hN leaf p (Some (Arr lv)) = Inl TypeError" for leaf p
    by (simp add: verifyProof_def Let_def)
  ultimately show ?thesis using rt by simp
qed

theorem verifyProof_against_built_root_throws_witness:
  "\<exists>p. getProof (MerkleTree sample_digest sample_digest [''a'', ''b'']) 0 = Inr p
     \<and> verifyProof sample_digest (hashLeaf sample_digest ([''a'', ''b''] ! nat 0)) p
          (getRoot (MerkleTree sample_digest sample_digest [''a'', ''b''])) = Inl TypeError"
  using verifyProof_against_built_root_throws [of "[''a'', ''b'']" 0 sample_digest sample_digest]
  by simp

text \<open>
  The one tree whose stored root is a digest is the tree of a single leaf: there the
  proof is empty and verifies.
\<close>

lemma single_leaf_proof_verifies:
  "getProof (MerkleTree hL hN [x]) 0 = Inr []
   \<and> verifyProof hN (hashLeaf hL x) [] (getRoot (MerkleTree hL hN [x])) = Inr True"
  by code_simp

text \<open>
  The trailing leaf of an odd level. \<^verbatim>\<open>buildTree\<close> pairs it with itself, and
  \<^verbatim>\<open>getProof\<close> skips the level (its sibling index is out of range), so the fold of
  \<^verbatim>\<open>verifyProof\<close> combines the leaf itself, where the tree holds the digest of the leaf
  paired with itself. For three leaves and index 2:
\<close>

lemma trailing_leaf_proof_skips_self_pairing:
  fixes hL hN :: "string \<Rightarrow> string" and a b c :: string
  defines "la \<equiv> hashLeaf hL a" and "lb \<equiv> hashLeaf hL b" and "lc \<equiv> hashLeaf hL c"
  shows "getRoot (MerkleTree hL hN [a, b, c])
           = Some (Arr [hashNodes hN (hashNodes hN la lb) (hashNodes hN lc lc)])
       \<and> getProof (MerkleTree hL hN [a, b, c]) 2
           = Inr [\<lparr>hash = hashNodes hN la lb, position = Left\<rparr>]
       \<and> fold (proofStep hN) [\<lparr>hash = hashNodes hN la lb, position = Left\<rparr>] lc
           = hashNodes hN (hashNodes hN la lb) lc"
  unfolding la_def lb_def lc_def by code_simp







section \<open>Properties of the RollupManager\<close>

lemma hexDigit_not_x: "n < 16 \<Longrightarrow> hexDigit n \<noteq> CHR ''x'' \<and> hexDigit n \<noteq> CHR ''X''"
proof -
  assume "n < 16"
  then have "n \<in> set [0..<16]" by simp
  then have "hexDigit n \<in> set (map hexDigit [0..<16])" unfolding set_map by (rule imageI)
  moreover have "map hexDigit [0..<16] = ''0123456789abcdef''" by code_simp
  ultimately have "hexDigit n \<in> set ''0123456789abcdef''" by simp
  then show ?thesis by auto
qed

lemma digestHex_not_hex_string: "\<not> isHexString (digestHex bytes)"
proof (cases bytes)
  case Nil
  then show ?thesis by (simp add: digestHex_def)
next
  case (Cons b bs)
  have "(of_char b :: nat) mod 16 < 16" by simp
  from hexDigit_not_x [OF this] Cons show ?thesis
    by (simp add: digestHex_def hexByte_def)
qed

lemma merkleRoot_not_BytesLike:
  "\<not> isBytesLike (getRoot (MerkleTree (leafHash env) (nodeHash env) hs))"
proof (cases hs)
  case Nil
  then show ?thesis by (simp add: getRoot_def MerkleTree_def buildTree_def)
next
  case (Cons h rest)
  show ?thesis
  proof (cases rest)
    case Nil
    with Cons show ?thesis
      by (simp add: getRoot_def MerkleTree_def buildTree_def hashLeaf_def leafHash_def
          digestHex_not_hex_string)
  next
    case (Cons h' rest')
    with \<open>hs = h # rest\<close> have "2 \<le> length hs" by simp
    from root_of_many [OF this] obtain lv
      where "getRoot (MerkleTree (leafHash env) (nodeHash env) hs) = Some (Arr lv)" by blast
    then show ?thesis by simp
  qed
qed

lemma keccak256_concat_throws:
  "\<not> isBytesLike b \<Longrightarrow> keccak256_concat env a b c = Inl (ExternalError ''invalid BytesLike value'')"
  by (auto simp: keccak256_concat_def split: option.splits node.splits)

lemma calculateBatchRoots_throws:
  "calculateBatchRoots env s b = Inl (ExternalError ''invalid BytesLike value'')"
  by (simp add: calculateBatchRoots_def Let_def keccak256_concat_throws merkleRoot_not_BytesLike)

lemma createBatch_throws:
  "pendingTransactions s \<noteq> [] \<Longrightarrow>
     createBatch env t_id t_stamp rnd s
       = (Inl (ExternalError ''invalid BytesLike value''),
          s\<lparr>pendingTransactions := drop (nat (batchSize s)) (pendingTransactions s)\<rparr>)"
  by (simp add: createBatch_def splice0_def Let_def calculateBatchRoots_throws)

lemma createBatch_empty:
  "pendingTransactions s = [] \<Longrightarrow> createBatch env t_id t_stamp rnd s = (Inr (), s)"
  by (simp add: createBatch_def)





text \<open>
  C3 (as the code behaves). \<^verbatim>\<open>createBatch\<close> on an empty queue returns with the state as
  it was. On a non-empty queue it removes the first \<open>min batchSize (length queue)\<close>
  transactions and then throws: the merkleRoot that \<^verbatim>\<open>calculateBatchRoots\<close> hands to
  \<^verbatim>\<open>ethers.concat\<close> is an unprefixed hex digest, an array or \<^verbatim>\<open>null\<close>, never a byte
  string, so the state-root hash throws \<^verbatim>\<open>'invalid BytesLike value'\<close> before the batch is
  stored. No batch is stored, nothing is marked submitted, the batch counter and the
  state root stay as they were, and the removed transactions are gone.
\<close>

theorem createBatch_drains_then_throws:
  "(pendingTransactions s = [] \<longrightarrow> createBatch env t_id t_stamp rnd s = (Inr (), s))
   \<and> (pendingTransactions s \<noteq> [] \<longrightarrow>
        createBatch env t_id t_stamp rnd s
          = (Inl (ExternalError ''invalid BytesLike value''),
             s\<lparr>pendingTransactions :=
                  drop (nat (min (batchSize s) (int (length (pendingTransactions s)))))
                    (pendingTransactions s)\<rparr>))"
proof (intro conjI impI)
  assume "pendingTransactions s = []"
  then show "createBatch env t_id t_stamp rnd s = (Inr (), s)" by (rule createBatch_empty)
next
  assume ne: "pendingTransactions s \<noteq> []"
  have "drop (nat (min (batchSize s) (int (length (pendingTransactions s))))) (pendingTransactions s)
          = drop (nat (batchSize s)) (pendingTransactions s)"
    by (simp add: min_def)
  with createBatch_throws [OF ne, of env t_id t_stamp rnd]
  show "createBatch env t_id t_stamp rnd s
          = (Inl (ExternalError ''invalid BytesLike value''),
             s\<lparr>pendingTransactions :=
                  drop (nat (min (batchSize s) (int (length (pendingTransactions s)))))
                    (pendingTransactions s)\<rparr>)"
    by simp
qed

theorem createBatch_drains_then_throws_witness:
  "createBatch sample_env 21 22 ''def'' (RollupManager sample_config3)
     = (Inr (), RollupManager sample_config3)
   \<and> map p_id (pendingTransactions sample_manager1) = [''tx_17_r'']
   \<and> merkleRootOf sample_env (pendingTransactions sample_manager1)
       = Some (Str ''307874785f31375f72'')
   \<and> createBatch sample_env 21 22 ''def'' sample_manager1
       = (Inl (ExternalError ''invalid BytesLike value''),
          sample_manager1\<lparr>pendingTransactions := []\<rparr>)
   \<and> map p_id (pendingTransactions sample_manager) = [''tx_17_r'', ''tx_19_s'']
   \<and> batchSize sample_manager = 3
   \<and> stateRoot sample_manager = Some ZeroHash
   \<and> merkleRootOf sample_env (pendingTransactions sample_manager)
       = Some (Arr [''333037383734373835663331333735663732333037383734373835663331333935663733''])
   \<and> createBatch sample_env 21 22 ''def'' sample_manager
       = (Inl (ExternalError ''invalid BytesLike value''),
          sample_manager\<lparr>pendingTransactions := []\<rparr>)
   \<and> batches (snd (createBatch sample_env 21 22 ''def'' sample_manager)) = []
   \<and> stateRoot (snd (createBatch sample_env 21 22 ''def'' sample_manager)) = Some ZeroHash
   \<and> batchCounter (snd (createBatch sample_env 21 22 ''def'' sample_manager)) = 0"
proof -
  have e: "pendingTransactions (RollupManager sample_config3) = []"
    by code_simp
  have q: "map p_id (pendingTransactions sample_manager1) = [''tx_17_r'']
     \<and> map p_id (pendingTransactions sample_manager) = [''tx_17_r'', ''tx_19_s'']
     \<and> batchSize sample_manager = 3 \<and> stateRoot sample_manager = Some ZeroHash
     \<and> batches sample_manager = [] \<and> batchCounter sample_manager = 0"
    by code_simp
  have r: "merkleRootOf sample_env (pendingTransactions sample_manager1)
             = Some (Str ''307874785f31375f72'')
     \<and> merkleRootOf sample_env (pendingTransactions sample_manager)
       = Some (Arr [''333037383734373835663331333735663732333037383734373835663331333935663733''])"
    by code_simp
  have ne1: "pendingTransactions sample_manager1 \<noteq> []" by code_simp
  have ne: "pendingTransactions sample_manager \<noteq> []" by code_simp
  have d1: "drop (nat (min (batchSize sample_manager1)
                (int (length (pendingTransactions sample_manager1)))))
             (pendingTransactions sample_manager1) = []"
    by code_simp
  have d: "drop (nat (min (batchSize sample_manager) (int (length (pendingTransactions sample_manager)))))
             (pendingTransactions sample_manager) = []"
    by code_simp
  note empty = createBatch_drains_then_throws [of "RollupManager sample_config3"
      sample_env 21 22 "''def''", THEN conjunct1, rule_format, OF e]
  note one = createBatch_drains_then_throws [of sample_manager1 sample_env 21 22 "''def''",
      THEN conjunct2, rule_format, OF ne1, unfolded d1]
  note two = createBatch_drains_then_throws [of sample_manager sample_env 21 22 "''def''",
      THEN conjunct2, rule_format, OF ne, unfolded d]
  show ?thesis
    using empty one two q r by simp
qed













lemma missing_field_invalid:
  "list_ex (\<lambda>f. \<not> truthy (field tx f)) requiredFields \<Longrightarrow> \<not> validateTransaction tx"
  by (simp add: validateTransaction_def)

lemma bad_signature_invalid: "\<not> verifySignature tx \<Longrightarrow> \<not> validateTransaction tx"
  by (simp add: validateTransaction_def)

lemma invalid_rejected:
  "\<not> validateTransaction tx \<Longrightarrow>
     addTransaction env tx t_tx r_tx t_in t_id t_stamp rnd s = (Inl (Error ''Invalid transaction''), s)"
  by (simp add: addTransaction_def)

lemma batchSize_addTransaction:
  "batchSize (snd (addTransaction env tx t_tx r_tx t_in t_id t_stamp rnd s)) = batchSize s"
proof (cases "validateTransaction tx")
  case False
  then show ?thesis by (simp add: invalid_rejected)
next
  case True
  have ne: "pendingTransactions (s\<lparr>pendingTransactions := pendingTransactions s @ [e]\<rparr>) \<noteq> []" for e
    by simp
  show ?thesis
    using True by (simp add: addTransaction_def Let_def createBatch_throws [OF ne])
qed

lemma addTransaction_below:
  assumes "validateTransaction tx" and "int (length (pendingTransactions s)) + 1 < batchSize s"
  shows "addTransaction env tx t_tx r_tx t_in t_id t_stamp rnd s
           = (Inr (), s\<lparr>pendingTransactions := pendingTransactions s @
                [\<lparr>tx_from = tx_from tx, tx_to = tx_to tx, tx_value = tx_value tx,
                  tx_data = tx_data tx, tx_nonce = tx_nonce tx, tx_signature = tx_signature tx,
                  p_id = ''tx_'' @ num_string t_tx @ ''_'' @ r_tx, p_timestamp = t_in,
                  p_status = ''pending''\<rparr>]\<rparr>)"
  using assms by (simp add: addTransaction_def Let_def generateTransactionId_def)

lemma addTransaction_at_batchSize:
  assumes "validateTransaction tx" and "batchSize s \<le> int (length (pendingTransactions s)) + 1"
  shows "addTransaction env tx t_tx r_tx t_in t_id t_stamp rnd s
           = (Inl (ExternalError ''invalid BytesLike value''),
              s\<lparr>pendingTransactions := drop (nat (batchSize s)) (pendingTransactions s @
                [\<lparr>tx_from = tx_from tx, tx_to = tx_to tx, tx_value = tx_value tx,
                  tx_data = tx_data tx, tx_nonce = tx_nonce tx, tx_signature = tx_signature tx,
                  p_id = ''tx_'' @ num_string t_tx @ ''_'' @ r_tx, p_timestamp = t_in,
                  p_status = ''pending''\<rparr>])\<rparr>)"
proof -
  have ne: "pendingTransactions (s\<lparr>pendingTransactions := pendingTransactions s @ [e]\<rparr>) \<noteq> []" for e
    by simp
  show ?thesis
    using assms
    by (simp add: addTransaction_def Let_def generateTransactionId_def createBatch_throws [OF ne])
qed

lemma queue_run_adds:
  "list_all (\<lambda>op. \<not> is_CreateBatch op) ops \<Longrightarrow>
   int (length (pendingTransactions s)) + int (length (concat (map queued ops))) < batchSize s \<Longrightarrow>
   pendingTransactions (rollup_run env ops s) = pendingTransactions s @ concat (map queued ops)"
proof (induction ops arbitrary: s)
  case Nil
  then show ?case by (simp add: rollup_run_def)
next
  case (Cons op ops)
  show ?case
  proof (cases op)
    case (Initialize up addr)
    have "pendingTransactions (rollup_run env ops (snd (initialize up addr s)))
            = pendingTransactions (snd (initialize up addr s)) @ concat (map queued ops)"
      using Cons.prems Initialize by (intro Cons.IH) (simp_all add: initialize_def)
    then show ?thesis
      using Initialize by (simp add: rollup_run_def initialize_def)
  next
    case (CreateBatch a b c)
    with Cons.prems show ?thesis by simp
  next
    case (AddTransaction tx t_tx r_tx t_in t_id t_stamp rnd)
    let ?s' = "snd (addTransaction env tx t_tx r_tx t_in t_id t_stamp rnd s)"
    show ?thesis
    proof (cases "validateTransaction tx")
      case False
      then have s': "?s' = s" by (simp add: invalid_rejected)
      have "pendingTransactions (rollup_run env ops s) = pendingTransactions s @ concat (map queued ops)"
        using Cons.prems AddTransaction False by (intro Cons.IH) simp_all
      then show ?thesis
        using AddTransaction False s' by (simp add: rollup_run_def)
    next
      case True
      have below: "int (length (pendingTransactions s)) + 1 < batchSize s"
        using Cons.prems(2) AddTransaction True by simp
      note st = addTransaction_below [OF True below, of env t_tx r_tx t_in t_id t_stamp rnd]
      have "pendingTransactions (rollup_run env ops ?s')
              = pendingTransactions ?s' @ concat (map queued ops)"
        using Cons.prems AddTransaction True by (intro Cons.IH) (simp_all add: st)
      then show ?thesis
        using AddTransaction True by (simp add: rollup_run_def st)
    qed
  qed
qed

text \<open>
  C5. \<^verbatim>\<open>addTransaction\<close> throws \<^verbatim>\<open>'Invalid transaction'\<close> and leaves the manager as it was
  whenever one of the six required fields is missing or the signature fails
  \<^verbatim>\<open>verifySignature\<close>. The call returns normally exactly when the transaction passes
  validation and the queue stays below the batch size, and then the queue after the call
  is the queue before it followed by one entry: the six fields of the transaction, its
  id, its timestamp and the status \<^verbatim>\<open>'pending'\<close>. So a sequence of calls leaves the
  entries of the accepted transactions behind the old queue in the order of the calls.
  A valid transaction that fills the queue to the batch size is appended as well, but
  then \<^verbatim>\<open>createBatch\<close> runs, removes the head of that queue and throws (see C3), and
  \<^verbatim>\<open>addTransaction\<close> throws with it.
\<close>

theorem addTransaction_rejects_or_queues_entry:
  assumes entry: "entry = \<lparr>tx_from = tx_from tx, tx_to = tx_to tx, tx_value = tx_value tx,
                  tx_data = tx_data tx, tx_nonce = tx_nonce tx, tx_signature = tx_signature tx,
                  p_id = ''tx_'' @ num_string t_tx @ ''_'' @ r_tx, p_timestamp = t_in,
                  p_status = ''pending''\<rparr>"
  shows "(list_ex (\<lambda>f. field tx f = JUndefined) requiredFields \<or> \<not> verifySignature tx
            \<longrightarrow> addTransaction env tx t_tx r_tx t_in t_id t_stamp rnd s
                 = (Inl (Error ''Invalid transaction''), s))
       \<and> (fst (addTransaction env tx t_tx r_tx t_in t_id t_stamp rnd s) = Inr ()
            \<longleftrightarrow> validateTransaction tx \<and> int (length (pendingTransactions s)) + 1 < batchSize s)
       \<and> (validateTransaction tx \<and> int (length (pendingTransactions s)) + 1 < batchSize s
            \<longrightarrow> addTransaction env tx t_tx r_tx t_in t_id t_stamp rnd s
                 = (Inr (), s\<lparr>pendingTransactions := pendingTransactions s @ [entry]\<rparr>))
       \<and> (validateTransaction tx \<and> batchSize s \<le> int (length (pendingTransactions s)) + 1
            \<longrightarrow> addTransaction env tx t_tx r_tx t_in t_id t_stamp rnd s
                 = (Inl (ExternalError ''invalid BytesLike value''),
                    s\<lparr>pendingTransactions :=
                         drop (nat (batchSize s)) (pendingTransactions s @ [entry])\<rparr>))
       \<and> (list_all (\<lambda>op. \<not> is_CreateBatch op) ops
            \<and> int (length (pendingTransactions s)) + int (length (concat (map queued ops)))
                < batchSize s
            \<longrightarrow> pendingTransactions (rollup_run env ops s)
                 = pendingTransactions s @ concat (map queued ops))"
proof -
  have rej: "addTransaction env tx t_tx r_tx t_in t_id t_stamp rnd s
                 = (Inl (Error ''Invalid transaction''), s)"
    if "list_ex (\<lambda>f. field tx f = JUndefined) requiredFields \<or> \<not> verifySignature tx"
  proof -
    from that have "\<not> validateTransaction tx"
    proof
      assume "list_ex (\<lambda>f. field tx f = JUndefined) requiredFields"
      then obtain f where "f \<in> set requiredFields" and "field tx f = JUndefined"
        by (auto simp: list_ex_iff)
      then have "f \<in> set requiredFields" and "\<not> truthy (field tx f)"
        by simp_all
      then have "list_ex (\<lambda>f. \<not> truthy (field tx f)) requiredFields"
        unfolding list_ex_iff by blast
      then show ?thesis by (rule missing_field_invalid)
    next
      assume "\<not> verifySignature tx"
      then show ?thesis by (rule bad_signature_invalid)
    qed
    then show ?thesis by (rule invalid_rejected)
  qed
  have below: "addTransaction env tx t_tx r_tx t_in t_id t_stamp rnd s
                 = (Inr (), s\<lparr>pendingTransactions := pendingTransactions s @ [entry]\<rparr>)"
    if "validateTransaction tx \<and> int (length (pendingTransactions s)) + 1 < batchSize s"
    using that addTransaction_below [of tx s env t_tx r_tx t_in t_id t_stamp rnd]
    by (simp add: entry)
  have at: "addTransaction env tx t_tx r_tx t_in t_id t_stamp rnd s
                 = (Inl (ExternalError ''invalid BytesLike value''),
                    s\<lparr>pendingTransactions :=
                         drop (nat (batchSize s)) (pendingTransactions s @ [entry])\<rparr>)"
    if "validateTransaction tx \<and> batchSize s \<le> int (length (pendingTransactions s)) + 1"
    using that addTransaction_at_batchSize [of tx s env t_tx r_tx t_in t_id t_stamp rnd]
    by (simp add: entry)
  have iff: "fst (addTransaction env tx t_tx r_tx t_in t_id t_stamp rnd s) = Inr ()
            \<longleftrightarrow> validateTransaction tx \<and> int (length (pendingTransactions s)) + 1 < batchSize s"
  proof (cases "validateTransaction tx")
    case False
    then show ?thesis by (simp add: invalid_rejected)
  next
    case True
    show ?thesis
    proof (cases "int (length (pendingTransactions s)) + 1 < batchSize s")
      case True
      with \<open>validateTransaction tx\<close> below show ?thesis by simp
    next
      case False
      with \<open>validateTransaction tx\<close> at show ?thesis by simp
    qed
  qed
  have run: "pendingTransactions (rollup_run env ops s)
                 = pendingTransactions s @ concat (map queued ops)"
    if "list_all (\<lambda>op. \<not> is_CreateBatch op) ops
            \<and> int (length (pendingTransactions s)) + int (length (concat (map queued ops)))
                < batchSize s"
    using that queue_run_adds [of ops s env] by simp
  from rej below at iff run show ?thesis by blast
qed

theorem addTransaction_rejects_or_queues_entry_witness:
  "addTransaction sample_env (sample_tx\<lparr>tx_data := JUndefined\<rparr>) 17 ''r'' 17 18 18 ''abc''
       (RollupManager sample_config3)
     = (Inl (Error ''Invalid transaction''), RollupManager sample_config3)
   \<and> addTransaction sample_env sample_tx 17 ''r'' 17 18 18 ''abc'' (RollupManager sample_config3)
     = (Inr (), (RollupManager sample_config3)
          \<lparr>pendingTransactions :=
             [\<lparr>tx_from = JStr ''0xa'', tx_to = JStr ''0xb'', tx_value = JNum 5,
               tx_data = JStr ''0x00'', tx_nonce = JNum 1,
               tx_signature = JStr (replicate 132 (CHR ''f'')),
               p_id = ''tx_17_r'', p_timestamp = 17, p_status = ''pending''\<rparr>]\<rparr>)
   \<and> addTransaction sample_env sample_tx 17 ''r'' 17 18 18 ''abc'' (RollupManager sample_config)
     = (Inl (ExternalError ''invalid BytesLike value''),
        (RollupManager sample_config)\<lparr>pendingTransactions := []\<rparr>)
   \<and> pendingTransactions
        (rollup_run sample_env
           [AddTransaction (sample_tx\<lparr>tx_from := JStr ''0x1''\<rparr>) 17 ''r'' 17 18 18 ''abc'',
            AddTransaction (sample_tx\<lparr>tx_nonce := JNum 0\<rparr>) 19 ''s'' 19 20 20 ''abc'',
            AddTransaction (sample_tx\<lparr>tx_from := JStr ''0x2''\<rparr>) 21 ''t'' 21 22 22 ''abc'']
           (RollupManager sample_config3))
     = [\<lparr>tx_from = JStr ''0x1'', tx_to = JStr ''0xb'', tx_value = JNum 5,
         tx_data = JStr ''0x00'', tx_nonce = JNum 1,
         tx_signature = JStr (replicate 132 (CHR ''f'')),
         p_id = ''tx_17_r'', p_timestamp = 17, p_status = ''pending''\<rparr>,
        \<lparr>tx_from = JStr ''0x2'', tx_to = JStr ''0xb'', tx_value = JNum 5,
         tx_data = JStr ''0x00'', tx_nonce = JNum 1,
         tx_signature = JStr (replicate 132 (CHR ''f'')),
         p_id = ''tx_21_t'', p_timestamp = 21, p_status = ''pending''\<rparr>]"
proof -
  have a: "list_ex (\<lambda>f. field (sample_tx\<lparr>tx_data := JUndefined\<rparr>) f = JUndefined) requiredFields
            \<or> \<not> verifySignature (sample_tx\<lparr>tx_data := JUndefined\<rparr>)"
    by code_simp
  have b: "validateTransaction sample_tx
        \<and> int (length (pendingTransactions (RollupManager sample_config3))) + 1
            < batchSize (RollupManager sample_config3)"
    by code_simp
  have c: "validateTransaction sample_tx
        \<and> batchSize (RollupManager sample_config)
            \<le> int (length (pendingTransactions (RollupManager sample_config))) + 1"
    by code_simp
  have e: "\<lparr>tx_from = JStr ''0xa'', tx_to = JStr ''0xb'', tx_value = JNum 5,
               tx_data = JStr ''0x00'', tx_nonce = JNum 1,
               tx_signature = JStr (replicate 132 (CHR ''f'')),
               p_id = ''tx_17_r'', p_timestamp = 17, p_status = ''pending''\<rparr>
         = \<lparr>tx_from = tx_from sample_tx, tx_to = tx_to sample_tx, tx_value = tx_value sample_tx,
            tx_data = tx_data sample_tx, tx_nonce = tx_nonce sample_tx,
            tx_signature = tx_signature sample_tx,
            p_id = ''tx_'' @ num_string 17 @ ''_'' @ ''r'', p_timestamp = 17,
            p_status = ''pending''\<rparr>"
    by code_simp
  have q: "pendingTransactions (RollupManager sample_config3) = []
         \<and> pendingTransactions (RollupManager sample_config) = []
         \<and> nat (batchSize (RollupManager sample_config)) = 1"
    by code_simp
  have d: "list_all (\<lambda>op. \<not> is_CreateBatch op)
             [AddTransaction (sample_tx\<lparr>tx_from := JStr ''0x1''\<rparr>) 17 ''r'' 17 18 18 ''abc'',
              AddTransaction (sample_tx\<lparr>tx_nonce := JNum 0\<rparr>) 19 ''s'' 19 20 20 ''abc'',
              AddTransaction (sample_tx\<lparr>tx_from := JStr ''0x2''\<rparr>) 21 ''t'' 21 22 22 ''abc'']
        \<and> int (length (pendingTransactions (RollupManager sample_config3)))
            + int (length (concat (map queued
             [AddTransaction (sample_tx\<lparr>tx_from := JStr ''0x1''\<rparr>) 17 ''r'' 17 18 18 ''abc'',
              AddTransaction (sample_tx\<lparr>tx_nonce := JNum 0\<rparr>) 19 ''s'' 19 20 20 ''abc'',
              AddTransaction (sample_tx\<lparr>tx_from := JStr ''0x2''\<rparr>) 21 ''t'' 21 22 22 ''abc''])))
            < batchSize (RollupManager sample_config3)"
    by code_simp
  have m: "concat (map queued
             [AddTransaction (sample_tx\<lparr>tx_from := JStr ''0x1''\<rparr>) 17 ''r'' 17 18 18 ''abc'',
              AddTransaction (sample_tx\<lparr>tx_nonce := JNum 0\<rparr>) 19 ''s'' 19 20 20 ''abc'',
              AddTransaction (sample_tx\<lparr>tx_from := JStr ''0x2''\<rparr>) 21 ''t'' 21 22 22 ''abc''])
     = [\<lparr>tx_from = JStr ''0x1'', tx_to = JStr ''0xb'', tx_value = JNum 5,
         tx_data = JStr ''0x00'', tx_nonce = JNum 1,
         tx_signature = JStr (replicate 132 (CHR ''f'')),
         p_id = ''tx_17_r'', p_timestamp = 17, p_status = ''pending''\<rparr>,
        \<lparr>tx_from = JStr ''0x2'', tx_to = JStr ''0xb'', tx_value = JNum 5,
         tx_data = JStr ''0x00'', tx_nonce = JNum 1,
         tx_signature = JStr (replicate 132 (CHR ''f'')),
         p_id = ''tx_21_t'', p_timestamp = 21, p_status = ''pending''\<rparr>]"
    by code_simp
  note rej = addTransaction_rejects_or_queues_entry [OF refl,
      where tx = "sample_tx\<lparr>tx_data := JUndefined\<rparr>" and s = "RollupManager sample_config3"
        and env = sample_env,
      THEN conjunct1, rule_format, OF a]
  note acc = addTransaction_rejects_or_queues_entry [OF e,
      where s = "RollupManager sample_config3" and env = sample_env,
      THEN conjunct2, THEN conjunct2, THEN conjunct1, rule_format, OF b]
  note thr = addTransaction_rejects_or_queues_entry [OF e,
      where s = "RollupManager sample_config" and env = sample_env,
      THEN conjunct2, THEN conjunct2, THEN conjunct2, THEN conjunct1, rule_format, OF c]
  note run = addTransaction_rejects_or_queues_entry [OF refl,
      where s = "RollupManager sample_config3" and env = sample_env,
      THEN conjunct2, THEN conjunct2, THEN conjunct2, THEN conjunct2, rule_format, OF d, unfolded m]
  show ?thesis
    using rej [of 17 "''r''" 17 18 18 "''abc''"] acc [of 18 18 "''abc''"] thr [of 18 18 "''abc''"]
      run q m
    by simp
qed

text \<open>
  C10. Presence of a required field is tested by truthiness: a transaction in which a
  required field is falsy is rejected with the manager unchanged, in particular one
  whose \<^verbatim>\<open>value\<close> or \<^verbatim>\<open>nonce\<close> is the number 0, although all six fields are present.
\<close>

theorem addTransaction_rejects_falsy_field:
  "(f \<in> set requiredFields \<and> \<not> truthy (field tx f)
      \<longrightarrow> addTransaction env tx t_tx r_tx t_in t_id t_stamp rnd s
           = (Inl (Error ''Invalid transaction''), s))
   \<and> (tx_value tx = JNum 0 \<or> tx_nonce tx = JNum 0
      \<longrightarrow> addTransaction env tx t_tx r_tx t_in t_id t_stamp rnd s
           = (Inl (Error ''Invalid transaction''), s))"
proof (intro conjI impI)
  assume "f \<in> set requiredFields \<and> \<not> truthy (field tx f)"
  then have "list_ex (\<lambda>f. \<not> truthy (field tx f)) requiredFields"
    by (auto simp: list_ex_iff)
  then show "addTransaction env tx t_tx r_tx t_in t_id t_stamp rnd s
           = (Inl (Error ''Invalid transaction''), s)"
    by (intro invalid_rejected missing_field_invalid)
next
  assume "tx_value tx = JNum 0 \<or> tx_nonce tx = JNum 0"
  then have "list_ex (\<lambda>f. \<not> truthy (field tx f)) requiredFields"
    by (auto simp: requiredFields_def field_def)
  then show "addTransaction env tx t_tx r_tx t_in t_id t_stamp rnd s
           = (Inl (Error ''Invalid transaction''), s)"
    by (intro invalid_rejected missing_field_invalid)
qed

theorem addTransaction_rejects_falsy_field_witness:
  "list_all (\<lambda>f. field (sample_tx\<lparr>tx_value := JNum 0\<rparr>) f \<noteq> JUndefined) requiredFields
   \<and> verifySignature (sample_tx\<lparr>tx_value := JNum 0\<rparr>)
   \<and> validateTransaction sample_tx
   \<and> addTransaction sample_env (sample_tx\<lparr>tx_value := JNum 0\<rparr>) 17 ''r'' 17 18 18 ''abc''
       (RollupManager sample_config)
     = (Inl (Error ''Invalid transaction''), RollupManager sample_config)
   \<and> addTransaction sample_env (sample_tx\<lparr>tx_nonce := JNum 0\<rparr>) 17 ''r'' 17 18 18 ''abc''
       (RollupManager sample_config)
     = (Inl (Error ''Invalid transaction''), RollupManager sample_config)"
proof -
  have a: "list_all (\<lambda>f. field (sample_tx\<lparr>tx_value := JNum 0\<rparr>) f \<noteq> JUndefined) requiredFields
   \<and> verifySignature (sample_tx\<lparr>tx_value := JNum 0\<rparr>) \<and> validateTransaction sample_tx"
    by code_simp
  have b: "tx_value (sample_tx\<lparr>tx_value := JNum 0\<rparr>) = JNum 0
           \<or> tx_nonce (sample_tx\<lparr>tx_value := JNum 0\<rparr>) = JNum 0"
    by simp
  have c: "''nonce'' \<in> set requiredFields
           \<and> \<not> truthy (field (sample_tx\<lparr>tx_nonce := JNum 0\<rparr>) ''nonce'')"
    by (simp add: requiredFields_def field_def)
  show ?thesis
    using addTransaction_rejects_falsy_field [of "''nonce''" "sample_tx\<lparr>tx_value := JNum 0\<rparr>"
        sample_env 17 "''r''" 17 18 18 "''abc''" "RollupManager sample_config"]
      addTransaction_rejects_falsy_field [of "''nonce''" "sample_tx\<lparr>tx_nonce := JNum 0\<rparr>"
        sample_env 17 "''r''" 17 18 18 "''abc''" "RollupManager sample_config"]
      a b c
    by blast
qed



section \<open>Properties of the ValidatorManager\<close>

lemma in_set_update:
  "(k', v') \<in> set (AList.update k v al) \<Longrightarrow> (k', v') = (k, v) \<or> (k', v') \<in> set al"
  by (induction al) (auto split: if_splits)

lemma in_set_delete: "(k', v') \<in> set (AList.delete k al) \<Longrightarrow> (k', v') \<in> set al"
  by (induction al) (auto split: if_splits)

lemma updated_in_set: "(k, v) \<in> set (AList.update k v al)"
  by (induction al) auto

lemma not_lt_ge: "x \<noteq> NaN \<Longrightarrow> \<not> js_lt x (Num m) \<Longrightarrow> js_ge x (Num m)"
  by (cases x) simp_all

lemma staked_update:
  assumes "staked s" and "v_isActive v \<longrightarrow> js_ge (v_stake v) (Num (minimumStake s))"
    and "minimumStake s' = minimumStake s"
    and "validators s' = AList.update a v (validators s)"
  shows "staked s'"
  using assms unfolding staked_def list_all_iff
  by (auto dest!: in_set_update)

lemma unstaked_update:
  assumes "v_isActive v" and "v_stake v = NaN"
    and "validators s' = AList.update a v (validators s)"
  shows "\<not> staked s'"
proof
  assume "staked s'"
  moreover have "(a, v) \<in> set (validators s')"
    using assms(3) by (simp add: updated_in_set)
  ultimately have "v_isActive v \<longrightarrow> js_ge (v_stake v) (Num (minimumStake s'))"
    unfolding staked_def list_all_iff by auto
  with assms(1,2) show False by simp
qed

lemma staked_register:
  assumes "staked s" and "stake \<noteq> NaN"
  shows "staked (snd (registerValidator a pk stake now s))"
proof (cases "has (validators s) a \<or> js_lt stake (Num (minimumStake s)) \<or> \<not> validatePublicKey pk")
  case True
  with assms show ?thesis by (auto simp: registerValidator_def)
next
  case False
  define v where "v = \<lparr>v_address = a, v_publicKey = pk, v_stake = stake,
                  v_registeredAt = now, v_isActive = True,
                  v_performance = \<lparr>totalBatches = 0, successfulBatches = 0,
                                    failedBatches = 0, uptime = (100, 1)\<rparr>\<rparr>"
  show ?thesis
  proof (rule staked_update [OF assms(1), where a = a and v = v])
    show "v_isActive v \<longrightarrow> js_ge (v_stake v) (Num (minimumStake s))"
      using False assms(2) by (simp add: v_def not_lt_ge)
    show "minimumStake (snd (registerValidator a pk stake now s)) = minimumStake s"
      using False by (simp add: registerValidator_def Let_def)
    show "validators (snd (registerValidator a pk stake now s)) = AList.update a v (validators s)"
      using False by (simp add: registerValidator_def Let_def v_def)
  qed
qed

lemma staked_unregister: "staked s \<Longrightarrow> staked (snd (unregisterValidator a s))"
  unfolding unregisterValidator_def staked_def list_all_iff
  by (auto dest!: in_set_delete)

lemma staked_updateStake:
  assumes "staked s" and "st \<noteq> NaN"
  shows "staked (snd (updateStake a st s))"
proof (cases "map_of (validators s) a")
  case None
  with assms show ?thesis by (simp add: updateStake_def)
next
  case (Some v0)
  show ?thesis
  proof (cases "js_lt st (Num (minimumStake s))")
    case True
    with Some assms show ?thesis by (simp add: updateStake_def)
  next
    case False
    show ?thesis
    proof (rule staked_update [OF assms(1), where a = a and v = "v0\<lparr>v_stake := st\<rparr>"])
      show "v_isActive (v0\<lparr>v_stake := st\<rparr>)
              \<longrightarrow> js_ge (v_stake (v0\<lparr>v_stake := st\<rparr>)) (Num (minimumStake s))"
        using False assms(2) by (simp add: not_lt_ge)
      show "minimumStake (snd (updateStake a st s)) = minimumStake s"
        using False Some by (simp add: updateStake_def Let_def)
      show "validators (snd (updateStake a st s)) = AList.update a (v0\<lparr>v_stake := st\<rparr>) (validators s)"
        using False Some by (simp add: updateStake_def Let_def)
    qed
  qed
qed

lemma staked_updatePerformance: "staked s \<Longrightarrow> staked (updatePerformance a ok s)"
proof -
  assume st: "staked s"
  show ?thesis
  proof (cases "map_of (performance s) a")
    case None
    with st show ?thesis by (simp add: updatePerformance_def)
  next
    case (Some perf)
    show ?thesis
    proof (cases "map_of (validators s) a")
      case None
      with Some st show ?thesis by (simp add: updatePerformance_def staked_def)
    next
      case (Some v)
      then have "(a, v) \<in> set (validators s)" by (rule map_of_SomeD)
      with st have "v_isActive v \<longrightarrow> js_ge (v_stake v) (Num (minimumStake s))"
        unfolding staked_def list_all_iff by auto
      then have act: "v_isActive (v\<lparr>v_performance := bump ok perf\<rparr>)
                  \<longrightarrow> js_ge (v_stake (v\<lparr>v_performance := bump ok perf\<rparr>)) (Num (minimumStake s))"
        by simp
      show ?thesis
      proof (rule staked_update [OF st act])
        show "minimumStake (updatePerformance a ok s) = minimumStake s"
          using Some \<open>map_of (performance s) a = Some perf\<close>
          by (simp add: updatePerformance_def)
        show "validators (updatePerformance a ok s)
                = AList.update a (v\<lparr>v_performance := bump ok perf\<rparr>) (validators s)"
          using Some \<open>map_of (performance s) a = Some perf\<close>
          by (simp add: updatePerformance_def)
      qed
    qed
  qed
qed

lemma staked_step: "staked s \<Longrightarrow> numeric op \<Longrightarrow> staked (registry_step op s)"
  by (cases op)
    (simp_all add: staked_register staked_unregister staked_updateStake staked_updatePerformance)

lemma staked_run: "staked s \<Longrightarrow> list_all numeric ops \<Longrightarrow> staked (registry_run ops s)"
  unfolding registry_run_def by (induction ops arbitrary: s) (simp_all add: staked_step)

text \<open>
  C9 (as the code behaves). The one guard on a stake is \<^verbatim>\<open>stake < this.minimumStake\<close>,
  which is false for \<^verbatim>\<open>NaN\<close>. So \<^verbatim>\<open>registerValidator\<close> with the stake \<^verbatim>\<open>NaN\<close>, a new
  address and a well-formed key stores an active validator whose stake is \<^verbatim>\<open>NaN\<close>, and
  \<^verbatim>\<open>updateStake\<close> with \<^verbatim>\<open>NaN\<close> gives that stake to a registered validator; for an active
  one the invariant \<^verbatim>\<open>stake >= minimumStake\<close> is false afterwards. For every other stake
  the claim holds: a stake below the minimum is rejected with the registry as it was,
  and every operation whose stake is not \<^verbatim>\<open>NaN\<close> preserves the invariant.
\<close>

theorem nan_stake_breaks_minimum_stake:
  assumes v: "v = \<lparr>v_address = a, v_publicKey = pk, v_stake = NaN, v_registeredAt = now,
                   v_isActive = True,
                   v_performance = \<lparr>totalBatches = 0, successfulBatches = 0,
                                     failedBatches = 0, uptime = (100, 1)\<rparr>\<rparr>"
  shows "(\<not> has (validators s) a \<and> validatePublicKey pk
            \<longrightarrow> registerValidator a pk NaN now s
                  = (Inr v, s\<lparr>validators := AList.update a v (validators s),
                               stakes := AList.update a NaN (stakes s),
                               performance := AList.update a (v_performance v) (performance s)\<rparr>)
                \<and> \<not> staked (snd (registerValidator a pk NaN now s)))
       \<and> (map_of (validators s) a = Some v0 \<and> v_isActive v0
            \<longrightarrow> updateStake a NaN s
                  = (Inr (v0\<lparr>v_stake := NaN\<rparr>),
                     s\<lparr>validators := AList.update a (v0\<lparr>v_stake := NaN\<rparr>) (validators s),
                       stakes := AList.update a NaN (stakes s)\<rparr>)
                \<and> \<not> staked (snd (updateStake a NaN s)))
       \<and> (stake < minimumStake s \<longrightarrow>
            registerValidator a pk (Num stake) now s
              = (Inl (Error (if has (validators s) a then ''Validator already registered''
                             else ''Insufficient stake amount'')), s))
       \<and> (newStake < minimumStake s \<longrightarrow>
            updateStake a (Num newStake) s
              = (Inl (Error (if has (validators s) a then ''Insufficient stake amount''
                             else ''Validator not found'')), s))
       \<and> (staked s \<and> numeric op \<longrightarrow> staked (registry_step op s))
       \<and> (list_all numeric ops \<longrightarrow> staked (registry_run ops (ValidatorManager configured)))"
proof -
  have reg: "registerValidator a pk NaN now s
                  = (Inr v, s\<lparr>validators := AList.update a v (validators s),
                               stakes := AList.update a NaN (stakes s),
                               performance := AList.update a (v_performance v) (performance s)\<rparr>)
                \<and> \<not> staked (snd (registerValidator a pk NaN now s))"
    if h: "\<not> has (validators s) a \<and> validatePublicKey pk"
  proof -
    have eq: "registerValidator a pk NaN now s
                  = (Inr v, s\<lparr>validators := AList.update a v (validators s),
                               stakes := AList.update a NaN (stakes s),
                               performance := AList.update a (v_performance v) (performance s)\<rparr>)"
      using h by (simp add: registerValidator_def Let_def v)
    have "\<not> staked (snd (registerValidator a pk NaN now s))"
    proof (rule unstaked_update [where v = v and a = a and s = s])
      show "v_isActive v" by (simp add: v)
      show "v_stake v = NaN" by (simp add: v)
      show "validators (snd (registerValidator a pk NaN now s)) = AList.update a v (validators s)"
        by (simp add: eq)
    qed
    with eq show ?thesis by simp
  qed
  have upd: "updateStake a NaN s
                  = (Inr (v0\<lparr>v_stake := NaN\<rparr>),
                     s\<lparr>validators := AList.update a (v0\<lparr>v_stake := NaN\<rparr>) (validators s),
                       stakes := AList.update a NaN (stakes s)\<rparr>)
                \<and> \<not> staked (snd (updateStake a NaN s))"
    if h: "map_of (validators s) a = Some v0 \<and> v_isActive v0"
  proof -
    have eq: "updateStake a NaN s
                  = (Inr (v0\<lparr>v_stake := NaN\<rparr>),
                     s\<lparr>validators := AList.update a (v0\<lparr>v_stake := NaN\<rparr>) (validators s),
                       stakes := AList.update a NaN (stakes s)\<rparr>)"
      using h by (simp add: updateStake_def Let_def)
    have "\<not> staked (snd (updateStake a NaN s))"
    proof (rule unstaked_update [where v = "v0\<lparr>v_stake := NaN\<rparr>" and a = a and s = s])
      show "v_isActive (v0\<lparr>v_stake := NaN\<rparr>)" using h by simp
      show "v_stake (v0\<lparr>v_stake := NaN\<rparr>) = NaN" by simp
      show "validators (snd (updateStake a NaN s))
              = AList.update a (v0\<lparr>v_stake := NaN\<rparr>) (validators s)"
        by (simp add: eq)
    qed
    with eq show ?thesis by simp
  qed
  have low: "registerValidator a pk (Num stake) now s
              = (Inl (Error (if has (validators s) a then ''Validator already registered''
                             else ''Insufficient stake amount'')), s)"
    if "stake < minimumStake s"
    using that by (simp add: registerValidator_def)
  have low': "updateStake a (Num newStake) s
              = (Inl (Error (if has (validators s) a then ''Insufficient stake amount''
                             else ''Validator not found'')), s)"
    if "newStake < minimumStake s"
    using that by (simp add: updateStake_def has_def split: option.splits)
  have step: "staked (registry_step op s)" if "staked s \<and> numeric op"
    using that by (simp add: staked_step)
  have run: "staked (registry_run ops (ValidatorManager configured))" if "list_all numeric ops"
  proof (rule staked_run [OF _ that])
    show "staked (ValidatorManager configured)"
      by (simp add: staked_def ValidatorManager_def)
  qed
  from reg upd low low' step run show ?thesis by blast
qed

theorem nan_stake_breaks_minimum_stake_witness:
  "map (\<lambda>(a, v). (a, v_stake v, v_isActive v))
       (validators (snd (registerValidator ''0xv3'' sample_key NaN 7 (ValidatorManager None))))
     = [(''0xv3'', NaN, True)]
   \<and> \<not> staked (snd (registerValidator ''0xv3'' sample_key NaN 7 (ValidatorManager None)))
   \<and> map (\<lambda>(a, v). (a, v_stake v, v_isActive v)) (validators sample_registry)
     = [(''0xv1'', Num 3000000000000000000, True)]
   \<and> minimumStake sample_registry = 1000000000000000000
   \<and> staked sample_registry
   \<and> map (\<lambda>(a, v). (a, v_stake v, v_isActive v))
       (validators (snd (updateStake ''0xv1'' NaN sample_registry)))
     = [(''0xv1'', NaN, True)]
   \<and> \<not> staked (snd (updateStake ''0xv1'' NaN sample_registry))
   \<and> staked (registry_step (UpdateStake ''0xv1'' (Num 1000000000000000000)) sample_registry)
   \<and> registerValidator ''0xv3'' sample_key (Num 500000000000000000) 7 sample_registry
       = (Inl (Error ''Insufficient stake amount''), sample_registry)
   \<and> updateStake ''0xv1'' (Num 500000000000000000) sample_registry
       = (Inl (Error ''Insufficient stake amount''), sample_registry)"
proof -
  have a: "map (\<lambda>(a, v). (a, v_stake v, v_isActive v)) (validators sample_registry)
     = [(''0xv1'', Num 3000000000000000000, True)]
   \<and> minimumStake sample_registry = 1000000000000000000"
    by code_simp
  have a': "map (\<lambda>(a, v). (a, v_stake v, v_isActive v))
       (validators (snd (registerValidator ''0xv3'' sample_key NaN 7 (ValidatorManager None))))
     = [(''0xv3'', NaN, True)]
   \<and> map (\<lambda>(a, v). (a, v_stake v, v_isActive v))
       (validators (snd (updateStake ''0xv1'' NaN sample_registry)))
     = [(''0xv1'', NaN, True)]"
    by code_simp
  have b: "500000000000000000 < minimumStake sample_registry" by code_simp
  have c: "has (validators sample_registry) ''0xv1'' \<and> \<not> has (validators sample_registry) ''0xv3''"
    by code_simp
  have n: "\<not> has (validators (ValidatorManager None)) ''0xv3'' \<and> validatePublicKey sample_key"
    by code_simp
  obtain v0 where v0: "map_of (validators sample_registry) ''0xv1'' = Some v0 \<and> v_isActive v0"
  proof
    show "map_of (validators sample_registry) ''0xv1''
            = Some \<lparr>v_address = ''0xv1'', v_publicKey = sample_key,
                     v_stake = Num 3000000000000000000, v_registeredAt = 5, v_isActive = True,
                     v_performance = \<lparr>totalBatches = 1, successfulBatches = 1,
                                       failedBatches = 0, uptime = (100, 1)\<rparr>\<rparr>
           \<and> v_isActive \<lparr>v_address = ''0xv1'', v_publicKey = sample_key,
                     v_stake = Num 3000000000000000000, v_registeredAt = 5, v_isActive = True,
                     v_performance = \<lparr>totalBatches = 1, successfulBatches = 1,
                                       failedBatches = 0, uptime = (100, 1)\<rparr>\<rparr>"
      by code_simp
  qed
  have ops: "list_all numeric [Register ''0xv1'' sample_key (Num 2000000000000000000) 5,
                   UpdatePerformance ''0xv1'' True,
                   UpdateStake ''0xv1'' (Num 3000000000000000000),
                   Register ''0xv2'' sample_key (Num 1000000000000000000) 6,
                   Unregister ''0xv2'']"
    by simp
  note t = nan_stake_breaks_minimum_stake [OF refl]
  have d: "staked sample_registry"
    unfolding sample_registry_def
    using t [THEN conjunct2, THEN conjunct2, THEN conjunct2, THEN conjunct2, THEN conjunct2,
        rule_format, OF ops] .
  have num: "staked sample_registry \<and> numeric (UpdateStake ''0xv1'' (Num 1000000000000000000))"
    using d by simp
  note reg = t [where s = "ValidatorManager None", THEN conjunct1, rule_format, OF n,
      THEN conjunct2]
  note upd = t [where s = sample_registry, THEN conjunct2, THEN conjunct1, rule_format, OF v0,
      THEN conjunct2]
  note low = t [where s = sample_registry and a = "''0xv3''",
      THEN conjunct2, THEN conjunct2, THEN conjunct1, rule_format, OF b]
  note low' = t [where s = sample_registry and a = "''0xv1''",
      THEN conjunct2, THEN conjunct2, THEN conjunct2, THEN conjunct1, rule_format, OF b]
  note step = t [THEN conjunct2, THEN conjunct2, THEN conjunct2, THEN conjunct2, THEN conjunct1,
      rule_format, OF num]
  show ?thesis
    using a a' c d reg upd low low' step by simp
qed

section \<open>Properties of the CrossChainBridge\<close>


lemma delay_addBridgeEvent [simp]: "withdrawalDelay (addBridgeEvent ty i t s) = withdrawalDelay s"
  by (simp add: addBridgeEvent_def Let_def)







lemma withdrawals_addBridgeEvent [simp]: "withdrawals (addBridgeEvent ty i t s) = withdrawals s"
  by (simp add: addBridgeEvent_def Let_def)



text \<open>
  C6. \<^verbatim>\<open>completeWithdrawal\<close> throws a different error for each of: an id that is not
  stored; a status other than \<^verbatim>\<open>'burned'\<close>; a clock reading before \<^verbatim>\<open>unlockTime\<close>; a
  proof that fails the re-verification. In each case the bridge, and with it the
  withdrawal record, is unchanged. With status \<^verbatim>\<open>'burned'\<close>, the clock at or past
  \<^verbatim>\<open>unlockTime\<close>, a proof that re-verifies, the layer-1 contract present and the
  encoder returning, it marks the record \<^verbatim>\<open>'completed'\<close>; every later call on the same id
  in that state throws \<^verbatim>\<open>'Withdrawal not ready for completion'\<close>.
\<close>

theorem completeWithdrawal_errors_and_single_completion:
  assumes w': "w' = w\<lparr>w_layer1TxHash := Some (''0x'' @ r_tx), w_status := ''completed''\<rparr>"
    and s': "s' = addBridgeEvent ''withdrawal_completed'' (w_id w') t_event
                    (s\<lparr>withdrawals := AList.update wid w' (withdrawals s)\<rparr>)"
  shows "(map_of (withdrawals s) wid = None
            \<longrightarrow> completeWithdrawal env wid now r_tx t_event s
                 = (Inl (Error ''Withdrawal not found''), s))
       \<and> (map_of (withdrawals s) wid = Some w \<and> w_status w \<noteq> ''burned''
            \<longrightarrow> completeWithdrawal env wid now r_tx t_event s
                 = (Inl (Error ''Withdrawal not ready for completion''), s))
       \<and> (map_of (withdrawals s) wid = Some w \<and> w_status w = ''burned'' \<and> now < w_unlockTime w
            \<longrightarrow> completeWithdrawal env wid now r_tx t_event s
                 = (Inl (Error ''Withdrawal still in delay period''), s))
       \<and> (map_of (withdrawals s) wid = Some w \<and> w_status w = ''burned'' \<and> w_unlockTime w \<le> now
            \<and> \<not> verifyWithdrawalProof (w_proof w)
            \<longrightarrow> completeWithdrawal env wid now r_tx t_event s
                 = (Inl (Error ''Invalid withdrawal proof''), s))
       \<and> distinct [''Withdrawal not found'', ''Withdrawal not ready for completion'',
                   ''Withdrawal still in delay period'', ''Invalid withdrawal proof'']
       \<and> (map_of (withdrawals s) wid = Some w \<and> w_status w = ''burned'' \<and> w_unlockTime w \<le> now
            \<and> verifyWithdrawalProof (w_proof w) \<and> layer1Contract s = Some c
            \<and> encodeWithdraw env (w_proof w) (w_tokenAddress w) (w_amount w) = Inr d
            \<longrightarrow> completeWithdrawal env wid now r_tx t_event s
                 = (Inr \<lparr>cr_withdrawalId = wid, cr_status = ''completed'',
                          cr_layer1TxHash = Some (''0x'' @ r_tx)\<rparr>, s')
               \<and> map_of (withdrawals s') wid = Some w'
               \<and> (\<forall>now2 r2 t2. completeWithdrawal env wid now2 r2 t2 s'
                      = (Inl (Error ''Withdrawal not ready for completion''), s')))"
proof (intro conjI impI allI)
  assume "map_of (withdrawals s) wid = None"
  then show "completeWithdrawal env wid now r_tx t_event s = (Inl (Error ''Withdrawal not found''), s)"
    by (simp add: completeWithdrawal_def)
next
  assume "map_of (withdrawals s) wid = Some w \<and> w_status w \<noteq> ''burned''"
  then show "completeWithdrawal env wid now r_tx t_event s
                 = (Inl (Error ''Withdrawal not ready for completion''), s)"
    by (simp add: completeWithdrawal_def)
next
  assume "map_of (withdrawals s) wid = Some w \<and> w_status w = ''burned'' \<and> now < w_unlockTime w"
  then show "completeWithdrawal env wid now r_tx t_event s
                 = (Inl (Error ''Withdrawal still in delay period''), s)"
    by (simp add: completeWithdrawal_def)
next
  assume "map_of (withdrawals s) wid = Some w \<and> w_status w = ''burned'' \<and> w_unlockTime w \<le> now
            \<and> \<not> verifyWithdrawalProof (w_proof w)"
  then show "completeWithdrawal env wid now r_tx t_event s
                 = (Inl (Error ''Invalid withdrawal proof''), s)"
    by (simp add: completeWithdrawal_def)
next
  show "distinct [''Withdrawal not found'', ''Withdrawal not ready for completion'',
                   ''Withdrawal still in delay period'', ''Invalid withdrawal proof'']"
    by simp
next
  assume a: "map_of (withdrawals s) wid = Some w \<and> w_status w = ''burned'' \<and> w_unlockTime w \<le> now
            \<and> verifyWithdrawalProof (w_proof w) \<and> layer1Contract s = Some c
            \<and> encodeWithdraw env (w_proof w) (w_tokenAddress w) (w_amount w) = Inr d"
  then show "completeWithdrawal env wid now r_tx t_event s
                 = (Inr \<lparr>cr_withdrawalId = wid, cr_status = ''completed'',
                          cr_layer1TxHash = Some (''0x'' @ r_tx)\<rparr>, s')"
    by (simp add: completeWithdrawal_def Let_def w' s')
  show stored: "map_of (withdrawals s') wid = Some w'"
    by (simp add: s' update_conv')
  fix now2 r2 t2
  have "w_status w' \<noteq> ''burned''" by (simp add: w')
  with stored show "completeWithdrawal env wid now2 r2 t2 s'
                      = (Inl (Error ''Withdrawal not ready for completion''), s')"
    by (simp add: completeWithdrawal_def)
qed

theorem completeWithdrawal_errors_and_single_completion_witness:
  "completeWithdrawal sample_bridge_env ''withdrawal_0_q'' 604801000 ''x'' 604801000 sample_bridge
      = (Inl (Error ''Withdrawal not found''), sample_bridge)
   \<and> completeWithdrawal sample_bridge_env ''withdrawal_1000_r'' 604800999 ''x'' 604800999 sample_bridge
      = (Inl (Error ''Withdrawal still in delay period''), sample_bridge)
   \<and> completeWithdrawal short_proof_env ''withdrawal_1000_r'' 604801000 ''x'' 604801000
        short_proof_bridge
      = (Inl (Error ''Invalid withdrawal proof''), short_proof_bridge)
   \<and> fst (completeWithdrawal sample_bridge_env ''withdrawal_1000_r'' 604801000 ''x'' 604801000
        sample_bridge)
      = Inr \<lparr>cr_withdrawalId = ''withdrawal_1000_r'', cr_status = ''completed'',
              cr_layer1TxHash = Some ''0xx''\<rparr>
   \<and> fst (completeWithdrawal sample_bridge_env ''withdrawal_1000_r'' 604802000 ''y'' 604802000
        (snd (completeWithdrawal sample_bridge_env ''withdrawal_1000_r'' 604801000 ''x'' 604801000
           sample_bridge)))
      = Inl (Error ''Withdrawal not ready for completion'')"
proof -
  have f1: "map_of (withdrawals sample_bridge) ''withdrawal_0_q'' = None" by code_simp
  have f3: "map_of (withdrawals sample_bridge) ''withdrawal_1000_r'' = Some sample_withdrawal
      \<and> w_status sample_withdrawal = ''burned'' \<and> 604800999 < w_unlockTime sample_withdrawal"
    by code_simp
  have f4: "map_of (withdrawals short_proof_bridge) ''withdrawal_1000_r''
        = Some (sample_withdrawal\<lparr>w_proof := Some ''0xbad''\<rparr>)
      \<and> w_status (sample_withdrawal\<lparr>w_proof := Some ''0xbad''\<rparr>) = ''burned''
      \<and> w_unlockTime (sample_withdrawal\<lparr>w_proof := Some ''0xbad''\<rparr>) \<le> 604801000
      \<and> \<not> verifyWithdrawalProof (w_proof (sample_withdrawal\<lparr>w_proof := Some ''0xbad''\<rparr>))"
    by code_simp
  have f6: "map_of (withdrawals sample_bridge) ''withdrawal_1000_r'' = Some sample_withdrawal
      \<and> w_status sample_withdrawal = ''burned'' \<and> w_unlockTime sample_withdrawal \<le> 604801000
      \<and> verifyWithdrawalProof (w_proof sample_withdrawal)
      \<and> layer1Contract sample_bridge = Some \<lparr>c_address = ''0xb1''\<rparr>
      \<and> encodeWithdraw sample_bridge_env (w_proof sample_withdrawal)
            (w_tokenAddress sample_withdrawal) (w_amount sample_withdrawal) = Inr ''withdraw''"
    by code_simp
  note t1 = completeWithdrawal_errors_and_single_completion [OF refl refl,
      where env = sample_bridge_env and s = sample_bridge and wid = "''withdrawal_0_q''",
      THEN conjunct1, rule_format, OF f1]
  note t3 = completeWithdrawal_errors_and_single_completion [OF refl refl,
      where env = sample_bridge_env and s = sample_bridge and wid = "''withdrawal_1000_r''"
        and w = sample_withdrawal and now = 604800999,
      THEN conjunct2, THEN conjunct2, THEN conjunct1, rule_format, OF f3]
  note t4 = completeWithdrawal_errors_and_single_completion [OF refl refl,
      where env = short_proof_env and s = short_proof_bridge and wid = "''withdrawal_1000_r''"
        and w = "sample_withdrawal\<lparr>w_proof := Some ''0xbad''\<rparr>" and now = 604801000,
      THEN conjunct2, THEN conjunct2, THEN conjunct2, THEN conjunct1, rule_format, OF f4]
  note t6 = completeWithdrawal_errors_and_single_completion [OF refl refl,
      where env = sample_bridge_env and s = sample_bridge and wid = "''withdrawal_1000_r''"
        and w = sample_withdrawal and now = 604801000 and c = "\<lparr>c_address = ''0xb1''\<rparr>"
        and d = "''withdraw''",
      THEN conjunct2, THEN conjunct2, THEN conjunct2, THEN conjunct2, THEN conjunct2,
      rule_format, OF f6]
  show ?thesis
    using t1 [of 604801000 "''x''" 604801000] t3 [of "''x''" 604800999] t4 [of "''x''" 604801000]
      t6 [of "''x''" 604801000]
    by simp
qed

section \<open>Properties of the RollupContract\<close>

lemma keeps_refl [simp]: "keeps i s s"
  by (simp add: keeps_def)

lemma keeps_submitBatch:
  "i < l1_batchCounter s \<Longrightarrow> submitBatch sender now sr mr len s = Inr s' \<Longrightarrow> keeps i s s'"
  by (auto simp: submitBatch_def checked_add_def checked_mul_def keeps_def
      split: if_splits sum.splits)

lemma keeps_challengeBatch: "challengeBatch sender now j s = Inr s' \<Longrightarrow> keeps i s s'"
  by (auto simp: challengeBatch_def checked_add_def keeps_def Let_def split: if_splits sum.splits)

lemma keeps_finalizeBatch: "finalizeBatch now j s = Inr s' \<Longrightarrow> keeps i s s'"
  by (auto simp: finalizeBatch_def checked_add_def keeps_def Let_def split: if_splits sum.splits)

lemma keeps_exec:
  assumes "i < l1_batchCounter s" and "l1_exec c s = Inr s'"
  shows "keeps i s s'"
proof (cases c)
  case (SubmitBatch sender now sr mr len)
  with assms show ?thesis by (simp add: keeps_submitBatch)
next
  case (ChallengeBatch sender now j)
  with assms show ?thesis by (simp add: keeps_challengeBatch)
next
  case (FinalizeBatch now j)
  with assms show ?thesis by (simp add: keeps_finalizeBatch)
next
  case (RegisterValidator sender val)
  with assms show ?thesis
    by (auto simp: l1_registerValidator_def keeps_def split: if_splits)
next
  case (UnregisterValidator sender accepts)
  with assms show ?thesis
    by (auto simp: l1_unregisterValidator_def keeps_def Let_def split: if_splits)
next
  case (UpdateSequencer sender a)
  with assms show ?thesis by (auto simp: updateSequencer_def keeps_def split: if_splits)
next
  case (UpdateChallengePeriod sender p)
  with assms show ?thesis by (auto simp: updateChallengePeriod_def keeps_def split: if_splits)
next
  case (UpdateMinimumStake sender m)
  with assms show ?thesis by (auto simp: updateMinimumStake_def keeps_def split: if_splits)
next
  case (UpdateMaxBatchSize sender m)
  with assms show ?thesis by (auto simp: updateMaxBatchSize_def keeps_def split: if_splits)
next
  case (Pause sender)
  with assms show ?thesis by (auto simp: pause_def keeps_def split: if_splits)
next
  case (Unpause sender)
  with assms show ?thesis by (auto simp: unpause_def keeps_def split: if_splits)
next
  case (EmergencyWithdraw sender accepts)
  with assms show ?thesis by (auto simp: emergencyWithdraw_def keeps_def split: if_splits)
next
  case (TransferOwnership sender a)
  with assms show ?thesis by (auto simp: transferOwnership_def keeps_def split: if_splits)
next
  case (RenounceOwnership sender)
  with assms show ?thesis by (auto simp: renounceOwnership_def keeps_def split: if_splits)
qed

lemma keeps_step: "i < l1_batchCounter s \<Longrightarrow> keeps i s (l1_step c s)"
  by (cases "l1_exec c s") (simp_all add: l1_step_def keeps_exec)

lemma keeps_trans: "keeps i s s' \<Longrightarrow> keeps i s' s'' \<Longrightarrow> keeps i s s''"
  by (auto simp: keeps_def)

lemma keeps_run: "i < l1_batchCounter s \<Longrightarrow> keeps i s (l1_run cs s)"
proof (induction cs arbitrary: s)
  case Nil
  then show ?case by (simp add: l1_run_def)
next
  case (Cons c cs)
  have first: "keeps i s (l1_step c s)" using Cons.prems by (rule keeps_step)
  then have "i < l1_batchCounter (l1_step c s)"
    using Cons.prems by (simp add: keeps_def)
  then have "keeps i (l1_step c s) (l1_run cs (l1_step c s))" by (rule Cons.IH)
  with first have "keeps i s (l1_run cs (l1_step c s))" by (rule keeps_trans)
  then show ?case by (simp add: l1_run_def)
qed

lemma finalized_fails:
  "isFinalized (l1_batches s i) \<Longrightarrow> \<exists>e. finalizeBatch now i s = Inl e"
  by (simp add: finalizeBatch_def Let_def)

text \<open>
  C2 (amended). \<^verbatim>\<open>finalizeBatch\<close> reverts for every batch while
  \<open>now \<le> timestamp + challengePeriod\<close>. After the window, for a batch below the counter
  on a contract that is not paused, it succeeds on a batch that is not finalized, and
  sets \<^verbatim>\<open>isFinalized\<close>; from then on it reverts for that batch after every sequence of
  calls, so it succeeds exactly once. For an unchallenged batch the batch's state root
  becomes the current state root. A challenged batch stays challenged after every
  sequence of calls; finalising it sets \<^verbatim>\<open>isFinalized\<close> as well (the contract has no
  mark for reverted) and leaves the current state root as it was.
\<close>

theorem finalizeBatch_window_and_flags:
  assumes b: "b = l1_batches s i"
    and s': "s' = (if isChallenged b then s else s\<lparr>currentStateRoot := sb_stateRoot b\<rparr>)
                    \<lparr>l1_batches := (l1_batches s)(i := b\<lparr>isFinalized := True\<rparr>)\<rparr>"
  shows "(now \<le> sb_timestamp b + challengePeriod s \<longrightarrow> (\<exists>e. finalizeBatch now i s = Inl e))
       \<and> (i < l1_batchCounter s \<and> \<not> paused s \<and> \<not> isFinalized b
            \<and> sb_timestamp b + challengePeriod s < now \<and> now \<le> uint_max
          \<longrightarrow> finalizeBatch now i s = Inr s'
              \<and> isFinalized (l1_batches s' i)
              \<and> isChallenged (l1_batches s' i) = isChallenged b
              \<and> currentStateRoot s' = (if isChallenged b then currentStateRoot s else sb_stateRoot b)
              \<and> (\<forall>cs now2. \<exists>e. finalizeBatch now2 i (l1_run cs s') = Inl e))
       \<and> (i < l1_batchCounter s \<and> isChallenged b
          \<longrightarrow> (\<forall>cs. isChallenged (l1_batches (l1_run cs s) i)))"
proof -
  have early: "now \<le> sb_timestamp b + challengePeriod s \<longrightarrow> (\<exists>e. finalizeBatch now i s = Inl e)"
    by (simp add: finalizeBatch_def checked_add_def Let_def b [symmetric])
  have once: "finalizeBatch now i s = Inr s'
              \<and> isFinalized (l1_batches s' i)
              \<and> isChallenged (l1_batches s' i) = isChallenged b
              \<and> currentStateRoot s' = (if isChallenged b then currentStateRoot s else sb_stateRoot b)
              \<and> (\<forall>cs now2. \<exists>e. finalizeBatch now2 i (l1_run cs s') = Inl e)"
    if a: "i < l1_batchCounter s \<and> \<not> paused s \<and> \<not> isFinalized b
            \<and> sb_timestamp b + challengePeriod s < now \<and> now \<le> uint_max"
  proof (intro conjI allI)
    show "finalizeBatch now i s = Inr s'"
      using a by (simp add: finalizeBatch_def checked_add_def Let_def b [symmetric] s')
    show fin: "isFinalized (l1_batches s' i)" by (simp add: s')
    show "isChallenged (l1_batches s' i) = isChallenged b" by (simp add: s')
    show "currentStateRoot s' = (if isChallenged b then currentStateRoot s else sb_stateRoot b)"
      by (simp add: s')
    fix cs now2
    have "i < l1_batchCounter s'" using a by (simp add: s')
    then have "keeps i s' (l1_run cs s')" by (rule keeps_run)
    with fin have "isFinalized (l1_batches (l1_run cs s') i)" by (simp add: keeps_def)
    then show "\<exists>e. finalizeBatch now2 i (l1_run cs s') = Inl e" by (rule finalized_fails)
  qed
  have stays: "\<forall>cs. isChallenged (l1_batches (l1_run cs s) i)"
    if a: "i < l1_batchCounter s \<and> isChallenged b"
  proof
    fix cs
    from a have "keeps i s (l1_run cs s)" by (simp add: keeps_run)
    with a show "isChallenged (l1_batches (l1_run cs s) i)" by (simp add: keeps_def b)
  qed
  from early once stays show ?thesis by blast
qed

theorem finalizeBatch_window_and_flags_witness:
  "(\<exists>e. finalizeBatch 3700 0 sample_contract = Inl e)
   \<and> (\<exists>s'. finalizeBatch 3701 0 sample_contract = Inr s'
          \<and> isFinalized (l1_batches s' 0) \<and> \<not> isChallenged (l1_batches s' 0)
          \<and> currentStateRoot s' = 11
          \<and> (\<exists>e. finalizeBatch 9999 0 s' = Inl e))
   \<and> isChallenged (l1_batches (l1_run [FinalizeBatch 3701 0, Pause 1] challenged_contract) 0)"
proof -
  have h1: "3700 \<le> sb_timestamp (l1_batches sample_contract 0) + challengePeriod sample_contract"
    by code_simp
  have h2: "0 < l1_batchCounter sample_contract \<and> \<not> paused sample_contract
      \<and> \<not> isFinalized (l1_batches sample_contract 0)
      \<and> sb_timestamp (l1_batches sample_contract 0) + challengePeriod sample_contract < 3701
      \<and> 3701 \<le> uint_max"
    by code_simp
  have h2b: "sb_stateRoot (l1_batches sample_contract 0) = 11
      \<and> \<not> isChallenged (l1_batches sample_contract 0)"
    by code_simp
  have h3: "0 < l1_batchCounter challenged_contract
      \<and> isChallenged (l1_batches challenged_contract 0)"
    by code_simp
  note early = finalizeBatch_window_and_flags [OF refl refl, of 3700 sample_contract 0,
      THEN conjunct1, rule_format, OF h1]
  note once = finalizeBatch_window_and_flags [OF refl refl, of 3701 sample_contract 0,
      THEN conjunct2, THEN conjunct1, rule_format, OF h2]
  note stays = finalizeBatch_window_and_flags [OF refl refl, of 0 challenged_contract 0,
      THEN conjunct2, THEN conjunct2, rule_format, OF h3]
  from once have again:
    "\<exists>e. finalizeBatch 9999 0
        (l1_run [] ((if isChallenged (l1_batches sample_contract 0) then sample_contract
              else sample_contract\<lparr>currentStateRoot := sb_stateRoot (l1_batches sample_contract 0)\<rparr>)
            \<lparr>l1_batches := (l1_batches sample_contract)
                (0 := (l1_batches sample_contract 0)\<lparr>isFinalized := True\<rparr>)\<rparr>)) = Inl e"
    by blast
  have third: "isChallenged (l1_batches (l1_run [FinalizeBatch 3701 0, Pause 1] challenged_contract) 0)"
    using stays by blast
  show ?thesis
    using early once again h2b third by (simp add: l1_run_def)
qed

text \<open>
  C2 (counterexample to the claim as stated). In the sample deployment validator 3
  challenges batch 0 at time 150. At time 3700 \<^verbatim>\<open>finalizeBatch\<close> reverts; at time 3701 it
  succeeds and the challenged batch has \<^verbatim>\<open>isFinalized\<close> set, with the current state root
  still 0.
\<close>

theorem challenged_batch_is_finalized:
  "isChallenged (l1_batches challenged_contract 0)
   \<and> \<not> isFinalized (l1_batches challenged_contract 0)
   \<and> \<not> isFinalized (l1_batches (l1_run [FinalizeBatch 3700 0] challenged_contract) 0)
   \<and> isFinalized (l1_batches (l1_run [FinalizeBatch 3701 0] challenged_contract) 0)
   \<and> isChallenged (l1_batches (l1_run [FinalizeBatch 3701 0] challenged_contract) 0)
   \<and> currentStateRoot (l1_run [FinalizeBatch 3701 0] challenged_contract) = 0"
  by code_simp

end
